theory Spec2Isabelle
  imports Complex_Main "HOL-Library.AList" "HOL-Library.Char_ord" "HOL-Library.List_Lexorder"
begin

section \<open>Data model\<close>

subsection \<open>JSON values and documents\<close>

text \<open>
  The feed's records and the stored documents are Python dicts obtained from JSON. A dict
  is an association list with distinct keys, in insertion order; \<open>map_of\<close> is
  \<^verbatim>\<open>dict.get\<close>, and \<open>AList.update\<close> is item assignment (an existing key keeps its place).
  Numbers are taken by their numeric value.
\<close>

datatype json =
    JNull
  | JBool bool
  | JNum real
  | JStr string
  | JArr "json list"
  | JObj "(string \<times> json) list"

type_synonym doc = "(string \<times> json) list"

text \<open>Python truthiness of a JSON value (\<^verbatim>\<open>if not cve_id\<close>).\<close>

fun truthy_json :: "json \<Rightarrow> bool" where
  "truthy_json JNull = False"
| "truthy_json (JBool b) = b"
| "truthy_json (JNum r) = (r \<noteq> 0)"
| "truthy_json (JStr s) = (s \<noteq> [])"
| "truthy_json (JArr xs) = (xs \<noteq> [])"
| "truthy_json (JObj kvs) = (kvs \<noteq> [])"

text \<open>Truthiness of an optional string argument (\<^verbatim>\<open>None\<close> and \<^verbatim>\<open>""\<close> are false).\<close>

fun truthy_str :: "string option \<Rightarrow> bool" where
  "truthy_str None = False"
| "truthy_str (Some s) = (s \<noteq> [])"

subsection \<open>Exceptions\<close>

datatype exn = TypeError | ValueError | OverflowError | AttributeError

section \<open>Cleaning a record: \<^verbatim>\<open>clean_cve_data\<close>\<close>

text \<open>
  \<^verbatim>\<open>value.split("T")[0]\<close>: on a string, the part before the first \<^verbatim>\<open>T\<close> (the whole
  string when it has none); every other JSON value has no \<^verbatim>\<open>split\<close> and raises
  \<^verbatim>\<open>AttributeError\<close>.
\<close>

fun split_T_first :: "json \<Rightarrow> exn + json" where
  "split_T_first (JStr s) = Inr (JStr (takeWhile (\<lambda>c. c \<noteq> CHR ''T'') s))"
| "split_T_first _ = Inl AttributeError"

text \<open>
  One iteration of the loop over \<^verbatim>\<open>date_fields\<close>: a field that is present is replaced by
  its date part, or by \<^verbatim>\<open>None\<close> when the \<^verbatim>\<open>try\<close> block raised. This is the record that
  is returned; the error that the \<^verbatim>\<open>except\<close> branch logs is \<open>clean_date_field_log\<close> below.
\<close>

definition clean_date_field :: "string \<Rightarrow> doc \<Rightarrow> doc" where
  "clean_date_field date_field cve_data =
     (case map_of cve_data date_field of
        None \<Rightarrow> cve_data
      | Some v \<Rightarrow>
          (case split_T_first v of
             Inr d \<Rightarrow> AList.update date_field d cve_data
           | Inl e \<Rightarrow> AList.update date_field JNull cve_data))"

definition date_fields :: "string list" where
  "date_fields = [''published'', ''lastModified'']"

definition clean_cve_data :: "doc \<Rightarrow> doc" where
  "clean_cve_data cve_data = fold clean_date_field date_fields cve_data"

text \<open>What \<^verbatim>\<open>clean_cve_data\<close> leaves in a date field, as a function of what was there.\<close>

fun cleaned_value :: "json \<Rightarrow> json" where
  "cleaned_value (JStr s) = JStr (takeWhile (\<lambda>c. c \<noteq> CHR ''T'') s)"
| "cleaned_value _ = JNull"


section \<open>The environment and the process state\<close>

subsection \<open>The upstream feed\<close>

text \<open>
  The query parameters of one GET. \<^verbatim>\<open>{}\<close>, the parameter dict of the metadata call, has
  every key absent.
\<close>

record params =
  startIndex :: "int option"
  resultsPerPage :: "int option"
  lastModStartDate :: "string option"
  lastModEndDate :: "string option"

definition no_params :: params where
  "no_params = \<lparr>startIndex = None, resultsPerPage = None,
                 lastModStartDate = None, lastModEndDate = None\<rparr>"

text \<open>
  The parsed JSON body of a reply, typed as the feed's wire format: \<^verbatim>\<open>totalResults\<close> an
  integer, \<^verbatim>\<open>vulnerabilities\<close> a sequence of wrapper objects whose \<^verbatim>\<open>cve\<close> key, when present,
  holds an object, \<^verbatim>\<open>timestamp\<close> a string. Each key may be absent; \<open>other_keys\<close> says
  whether the body has any further key (it decides whether an otherwise empty body is
  a falsy \<^verbatim>\<open>{}\<close>).
\<close>

record response =
  totalResults :: "int option"
  vulnerabilities :: "doc option list option"
  timestamp :: "string option"
  other_keys :: bool

definition truthy_response :: "response \<Rightarrow> bool" where
  "truthy_response data \<longleftrightarrow>
     totalResults data \<noteq> None \<or> vulnerabilities data \<noteq> None \<or> timestamp data \<noteq> None
     \<or> other_keys data"

record http_reply =
  status :: nat
  body :: response

subsection \<open>Dates\<close>

text \<open>
  A \<^verbatim>\<open>datetime\<close> is naive or timezone-aware; its value is counted in microseconds (an
  aware one in UTC). Subtracting a naive and an aware datetime raises \<^verbatim>\<open>TypeError\<close>.
\<close>

datatype pydatetime = Naive int | Aware int

fun datetime_sub :: "pydatetime \<Rightarrow> pydatetime \<Rightarrow> exn + int" where
  "datetime_sub (Naive a) (Naive b) = Inr (a - b)"
| "datetime_sub (Aware a) (Aware b) = Inr (a - b)"
| "datetime_sub _ _ = Inl TypeError"

definition microseconds_per_day :: int where
  "microseconds_per_day = 86400000000"

text \<open>\<^verbatim>\<open>timedelta(days=n)\<close> in microseconds.\<close>

definition timedelta_days :: "int \<Rightarrow> int" where
  "timedelta_days n = n * microseconds_per_day"

text \<open>\<^verbatim>\<open>s.replace("Z", "+00:00")\<close>: every \<^verbatim>\<open>Z\<close> of the string is replaced.\<close>

definition replace_Z :: "string \<Rightarrow> string" where
  "replace_Z s = concat (map (\<lambda>c. if c = CHR ''Z'' then ''+00:00'' else [c]) s)"

subsection \<open>Arguments of the query function\<close>

text \<open>
  \<^verbatim>\<open>base_score\<close> and \<^verbatim>\<open>last_modified_days\<close> arrive as numbers (the documented types) or
  as the strings of an HTTP query (what the view passes), or are \<^verbatim>\<open>None\<close>.
\<close>

datatype pyval = PNone | PStr string | PInt int | PFloat real

fun truthy_pyval :: "pyval \<Rightarrow> bool" where
  "truthy_pyval PNone = False"
| "truthy_pyval (PStr s) = (s \<noteq> [])"
| "truthy_pyval (PInt i) = (i \<noteq> 0)"
| "truthy_pyval (PFloat r) = (r \<noteq> 0)"

subsection \<open>The environment\<close>

text \<open>
  What the code reaches outside the repository, as parameters:
  \<^item> \<open>upstream n p\<close>: the reply to the GET with parameters \<open>p\<close> issued after \<open>n\<close> earlier
    GETs; \<open>None\<close> is a transport failure (\<^verbatim>\<open>aiohttp.ClientError\<close>);
  \<^item> \<open>fromisoformat\<close>: \<^verbatim>\<open>datetime.fromisoformat\<close>, \<open>None\<close> for \<^verbatim>\<open>ValueError\<close>;
  \<^item> \<open>now\<close>: \<^verbatim>\<open>datetime.now(timezone.utc)\<close>, in microseconds since \<^verbatim>\<open>datetime.min\<close>;
  \<^item> \<open>isoformat\<close>: \<^verbatim>\<open>isoformat()\<close> of an aware UTC datetime;
  \<^item> \<open>parse_float\<close>, \<open>parse_int\<close>: \<^verbatim>\<open>float(s)\<close> and \<^verbatim>\<open>int(s)\<close> on a string, \<open>None\<close> for
    \<^verbatim>\<open>ValueError\<close>;
  \<^item> \<open>unique_violation c d\<close>: whether the collection, holding \<open>c\<close>, rejects the insertion
    of \<open>d\<close> with a duplicate-key error. The collection is declared in \<^verbatim>\<open>models.py\<close>,
    whose unique indexes are therefore a parameter;
  \<^item> \<open>find_fails\<close>: whether \<^verbatim>\<open>cve_collection.find\<close> raises.
\<close>

record env =
  upstream :: "nat \<Rightarrow> params \<Rightarrow> http_reply option"
  fromisoformat :: "string \<Rightarrow> pydatetime option"
  now :: int
  isoformat :: "int \<Rightarrow> string"
  parse_float :: "string \<Rightarrow> real option"
  parse_int :: "string \<Rightarrow> int option"
  unique_violation :: "doc list \<Rightarrow> doc \<Rightarrow> bool"
  find_fails :: bool

text \<open>Two collections: one with no unique index on \<^verbatim>\<open>id\<close>, one with such an index.\<close>

definition no_unique_index :: "doc list \<Rightarrow> doc \<Rightarrow> bool" where
  "no_unique_index c d = False"

definition unique_index_on_id :: "doc list \<Rightarrow> doc \<Rightarrow> bool" where
  "unique_index_on_id c d = (map_of d ''id'' \<in> set (map (\<lambda>e. map_of e ''id'') c))"

subsection \<open>The state\<close>

datatype log_entry = LogInfo string | LogError string

text \<open>
  \<open>collection\<close> is the content of \<^verbatim>\<open>cve_collection\<close> in insertion order,
  \<open>last_sync_timestamp\<close> the module global of that name, \<open>requests\<close> the GETs issued so
  far, \<open>bulk_writes\<close> the number of \<^verbatim>\<open>bulk_write\<close> calls made so far, \<open>logged\<close> the log.
\<close>

record state =
  collection :: "doc list"
  last_sync_timestamp :: "string option"
  requests :: "params list"
  bulk_writes :: nat
  logged :: "log_entry list"

text \<open>The state of a fresh process: the module is loaded with no watermark.\<close>

definition process_start :: "doc list \<Rightarrow> state" where
  "process_start c = \<lparr>collection = c, last_sync_timestamp = None, requests = [],
                      bulk_writes = 0, logged = []\<rparr>"

definition log_info :: "string \<Rightarrow> state \<Rightarrow> state" where
  "log_info m s = s\<lparr>logged := logged s @ [LogInfo m]\<rparr>"

definition log_error :: "string \<Rightarrow> state \<Rightarrow> state" where
  "log_error m s = s\<lparr>logged := logged s @ [LogError m]\<rparr>"

section \<open>The synchronisation engine\<close>

subsection \<open>\<^verbatim>\<open>fetch_data\<close>\<close>

definition fetch_data :: "env \<Rightarrow> params \<Rightarrow> state \<Rightarrow> response option \<times> state" where
  "fetch_data e p s =
     (let s1 = s\<lparr>requests := requests s @ [p]\<rparr> in
      case upstream e (length (requests s)) p of
        None \<Rightarrow> (None, log_error ''Request error'' s1)
      | Some r \<Rightarrow>
          if status r = 200 then (Some (body r), s1)
          else (None, log_error ''Error fetching data: HTTP'' s1))"

subsection \<open>\<^verbatim>\<open>is_valid_cve\<close>, \<^verbatim>\<open>prepare_bulk_operations\<close>\<close>

text \<open>
  The store's equality match \<^verbatim>\<open>{field: v}\<close> on a top-level field: the field equals \<open>v\<close>, or
  is an array with an element equal to \<open>v\<close>. This is the match for a query value that is
  a value. An object whose keys are query operators (\<^verbatim>\<open>{"$gt": ""}\<close>) is read by the store
  as an operator expression instead; the ids of the feed are strings, and an id of that
  shape is outside this model.
\<close>

fun eq_match :: "json \<Rightarrow> json \<Rightarrow> bool" where
  "eq_match v (JArr xs) = (JArr xs = v \<or> v \<in> set xs)"
| "eq_match v x = (x = v)"

definition count_documents_id :: "doc list \<Rightarrow> json \<Rightarrow> nat" where
  "count_documents_id c cve_id =
     min 1 (length (filter (\<lambda>d. case map_of d ''id'' of None \<Rightarrow> False
                                  | Some x \<Rightarrow> eq_match cve_id x) c))"

definition is_valid_cve :: "doc list \<Rightarrow> doc \<Rightarrow> bool" where
  "is_valid_cve c cve_data =
     (let cve_id = (case map_of cve_data ''id'' of None \<Rightarrow> JNull | Some v \<Rightarrow> v) in
      if \<not> truthy_json cve_id then False
      else if count_documents_id c cve_id > 0 then False
      else True)"

text \<open>
  The loop over the page's wrappers; \<^verbatim>\<open>vulnerability.get("cve", {})\<close> is the empty dict for
  a wrapper without the key. The collection is only read here, so every record of the
  page is checked against the collection as it was before the page.
\<close>

fun prepare_bulk_operations :: "doc list \<Rightarrow> doc option list \<Rightarrow> doc list" where
  "prepare_bulk_operations c [] = []"
| "prepare_bulk_operations c (vulnerability # rest) =
     (let cve_data = (case vulnerability of None \<Rightarrow> [] | Some d \<Rightarrow> d) in
      if is_valid_cve c cve_data
      then clean_cve_data cve_data # prepare_bulk_operations c rest
      else prepare_bulk_operations c rest)"

text \<open>
  What the preparation of a page writes to the log: \<^verbatim>\<open>clean_cve_data\<close> logs an error in
  its \<^verbatim>\<open>except\<close> branch, that is once for each date field that is present and is not a
  string. The fields are visited in the order of \<^verbatim>\<open>date_fields\<close>, each on the record as
  the fields before it left it.
\<close>

definition clean_date_field_log :: "string \<Rightarrow> doc \<Rightarrow> log_entry list" where
  "clean_date_field_log date_field cve_data =
     (case map_of cve_data date_field of
        None \<Rightarrow> []
      | Some v \<Rightarrow>
          (case split_T_first v of
             Inr d \<Rightarrow> []
           | Inl e \<Rightarrow> [LogError ''Error cleaning date field'']))"

fun clean_fields_log :: "string list \<Rightarrow> doc \<Rightarrow> log_entry list" where
  "clean_fields_log [] cve_data = []"
| "clean_fields_log (date_field # others) cve_data =
     clean_date_field_log date_field cve_data
       @ clean_fields_log others (clean_date_field date_field cve_data)"

definition clean_cve_data_log :: "doc \<Rightarrow> log_entry list" where
  "clean_cve_data_log cve_data = clean_fields_log date_fields cve_data"

fun prepare_log :: "doc list \<Rightarrow> doc option list \<Rightarrow> log_entry list" where
  "prepare_log c [] = []"
| "prepare_log c (vulnerability # rest) =
     (let cve_data = (case vulnerability of None \<Rightarrow> [] | Some d \<Rightarrow> d) in
      if is_valid_cve c cve_data
      then clean_cve_data_log cve_data @ prepare_log c rest
      else prepare_log c rest)"

definition log_entries :: "log_entry list \<Rightarrow> state \<Rightarrow> state" where
  "log_entries es s = s\<lparr>logged := logged s @ es\<rparr>"

subsection \<open>\<^verbatim>\<open>execute_bulk_operations\<close>\<close>

text \<open>
  \<^verbatim>\<open>cve_collection.bulk_write(ops)\<close> is called with the driver's default, an ordered
  write: the insertions are made one after the other, and the first one that the
  collection rejects ends the call with \<^verbatim>\<open>BulkWriteError\<close>; the operations after it are
  not attempted. The result is the collection and whether the call succeeded.
\<close>

fun bulk_write :: "(doc list \<Rightarrow> doc \<Rightarrow> bool) \<Rightarrow> doc list \<Rightarrow> doc list \<Rightarrow> doc list \<times> bool" where
  "bulk_write uv c [] = (c, True)"
| "bulk_write uv c (d # ds) =
     (if uv c d then (c, False) else bulk_write uv (c @ [d]) ds)"

definition execute_bulk_operations :: "env \<Rightarrow> doc list \<Rightarrow> state \<Rightarrow> state" where
  "execute_bulk_operations e bulk_operations s =
     (if bulk_operations = [] then s
      else
        (case bulk_write (unique_violation e) (collection s) bulk_operations of
           (c, ok) \<Rightarrow>
             (let s1 = s\<lparr>collection := c, bulk_writes := Suc (bulk_writes s)\<rparr> in
              if ok then log_info ''Bulk operations executed successfully.'' s1
              else log_error ''Bulk write error'' s1)))"

subsection \<open>\<^verbatim>\<open>fetch_and_store_cve_data\<close>\<close>

text \<open>
  The request of one loop iteration: the window keys are attached only when both dates
  are truthy.
\<close>

definition page_params :: "int \<Rightarrow> int \<Rightarrow> string option \<Rightarrow> string option \<Rightarrow> params" where
  "page_params start_index results_per_page last_mod_start_date last_mod_end_date =
     (if truthy_str last_mod_start_date \<and> truthy_str last_mod_end_date
      then \<lparr>startIndex = Some start_index, resultsPerPage = Some results_per_page,
            lastModStartDate = last_mod_start_date, lastModEndDate = last_mod_end_date\<rparr>
      else \<lparr>startIndex = Some start_index, resultsPerPage = Some results_per_page,
            lastModStartDate = None, lastModEndDate = None\<rparr>)"

text \<open>
  The \<^verbatim>\<open>while start_index < total_results\<close> loop. \<open>total_results\<close> is \<open>None\<close> for the
  initial \<^verbatim>\<open>float("inf")\<close>. Nothing bounds the number of iterations (the feed may report
  an ever larger total), so the loop takes fuel, and \<open>None\<close> is the run that has not
  returned within it.
\<close>

fun fetch_loop ::
  "nat \<Rightarrow> env \<Rightarrow> int \<Rightarrow> int \<Rightarrow> string option \<Rightarrow> string option \<Rightarrow> int option \<Rightarrow> state
     \<Rightarrow> state option" where
  "fetch_loop 0 e start_index results_per_page lo hi total_results s = None"
| "fetch_loop (Suc fuel) e start_index results_per_page lo hi total_results s =
     (if (case total_results of None \<Rightarrow> True | Some t \<Rightarrow> start_index < t) then
        (case fetch_data e (page_params start_index results_per_page lo hi) s of
           (None, s1) \<Rightarrow> Some s1
         | (Some data, s1) \<Rightarrow>
             if \<not> truthy_response data then Some s1
             else
               (let total = (case totalResults data of None \<Rightarrow> 0 | Some t \<Rightarrow> t);
                    vulns = (case vulnerabilities data of None \<Rightarrow> [] | Some v \<Rightarrow> v)
                in
                if vulns = [] then Some (log_info ''No vulnerabilities found.'' s1)
                else
                  (let bulk_operations = prepare_bulk_operations (collection s1) vulns;
                       s1a = log_entries (prepare_log (collection s1) vulns) s1;
                       s2 = (if bulk_operations \<noteq> []
                             then execute_bulk_operations e bulk_operations s1a else s1a)
                   in fetch_loop fuel e (start_index + results_per_page) results_per_page
                        lo hi (Some total) (log_info ''Processed data from index'' s2))))
      else Some s)"

definition fetch_and_store_cve_data ::
  "nat \<Rightarrow> env \<Rightarrow> int \<Rightarrow> int \<Rightarrow> string option \<Rightarrow> string option \<Rightarrow> state \<Rightarrow> state option" where
  "fetch_and_store_cve_data fuel e start_index results_per_page last_mod_start_date
       last_mod_end_date s =
     fetch_loop fuel e start_index results_per_page last_mod_start_date last_mod_end_date
       None s"

subsection \<open>\<^verbatim>\<open>synchronize_cve_data\<close>\<close>

text \<open>
  The validation block of \<^verbatim>\<open>synchronize_cve_data\<close> (the \<^verbatim>\<open>if\<close> with its \<^verbatim>\<open>try\<close>): it is
  entered only when both dates are truthy. \<open>Reject m\<close> is \<^verbatim>\<open>logger.error(m); return\<close>;
  \<open>Raise x\<close> is an exception that the \<^verbatim>\<open>except ValueError\<close> clause does not catch.
\<close>

datatype validation = Pass | Reject string | Raise exn

definition max_window :: int where
  "max_window = timedelta_days 120"

definition validate_window :: "env \<Rightarrow> string option \<Rightarrow> string option \<Rightarrow> validation" where
  "validate_window e last_mod_start_date last_mod_end_date =
     (case (last_mod_start_date, last_mod_end_date) of
        (Some a, Some b) \<Rightarrow>
          if a \<noteq> [] \<and> b \<noteq> [] then
            (case fromisoformat e (replace_Z a) of
               None \<Rightarrow> Reject ''Invalid date format''
             | Some start_date \<Rightarrow>
                 (case fromisoformat e (replace_Z b) of
                    None \<Rightarrow> Reject ''Invalid date format''
                  | Some end_date \<Rightarrow>
                      (case datetime_sub end_date start_date of
                         Inl x \<Rightarrow> Raise x
                       | Inr delta \<Rightarrow>
                           if delta > max_window
                           then Reject ''Date range exceeds the maximum allowable range of 120 days.''
                           else Pass)))
          else Pass
      | _ \<Rightarrow> Pass)"

text \<open>The metadata call that ends a run, and the update of the global.\<close>

definition update_last_sync_timestamp :: "env \<Rightarrow> state \<Rightarrow> state" where
  "update_last_sync_timestamp e s =
     (case fetch_data e no_params s of
        (None, s1) \<Rightarrow> s1
      | (Some data, s1) \<Rightarrow>
          if truthy_response data
          then log_info ''Updated last synchronization timestamp''
                 (s1\<lparr>last_sync_timestamp := timestamp data\<rparr>)
          else s1)"

text \<open>
  The result is \<open>None\<close> when the fetch loop has not returned; otherwise what the caller
  gets (\<open>Inr ()\<close> for the normal return of \<^verbatim>\<open>None\<close>, \<open>Inl x\<close> for a raised exception)
  and the state left behind.
\<close>

definition synchronize_cve_data ::
  "nat \<Rightarrow> env \<Rightarrow> string option \<Rightarrow> string option \<Rightarrow> state \<Rightarrow> ((exn + unit) \<times> state) option" where
  "synchronize_cve_data fuel e last_mod_start_date last_mod_end_date s =
     (let s0 = log_info ''Starting CVE data synchronization.'' s in
      case validate_window e last_mod_start_date last_mod_end_date of
        Raise x \<Rightarrow> Some (Inl x, s0)
      | Reject m \<Rightarrow> Some (Inr (), log_error m s0)
      | Pass \<Rightarrow>
          (let (lo, hi) =
                 (if truthy_str (last_sync_timestamp s0)
                     \<and> \<not> (truthy_str last_mod_start_date \<and> truthy_str last_mod_end_date)
                  then (last_sync_timestamp s0, Some (isoformat e (now e)))
                  else (last_mod_start_date, last_mod_end_date))
           in
           case fetch_and_store_cve_data fuel e 0 2000 lo hi s0 of
             None \<Rightarrow> None
           | Some s1 \<Rightarrow> Some (Inr (), update_last_sync_timestamp e s1)))"

section \<open>The update view\<close>

datatype json_response = JsonResponse nat string string

text \<open>
  \<^verbatim>\<open>UpdateCveDataView.get\<close>: the body of the \<^verbatim>\<open>try\<close> is the call
  \<^verbatim>\<open>fetch_and_store_cve_data()\<close> with every default. The function raises nothing on a
  well-typed feed, so the \<^verbatim>\<open>except\<close> branch (status 500) is not reached here.
\<close>

definition UpdateCveDataView_get :: "nat \<Rightarrow> env \<Rightarrow> state \<Rightarrow> (json_response \<times> state) option" where
  "UpdateCveDataView_get fuel e s =
     (case fetch_and_store_cve_data fuel e 0 2000 None None s of
        None \<Rightarrow> None
      | Some s1 \<Rightarrow>
          Some (JsonResponse 200 ''success'' ''CVE data updated successfully.'', s1))"

section \<open>The query service: \<^verbatim>\<open>fetch_filtered_cve_data\<close>\<close>

subsection \<open>Conversions of the arguments\<close>

text \<open>
  \<^verbatim>\<open>float\<close> and \<^verbatim>\<open>int\<close> on the argument. A float is taken by its real value: the rounding
  of \<^verbatim>\<open>float\<close> on an integer of more than 53 bits, its \<^verbatim>\<open>OverflowError\<close> on an integer beyond
  the float range, and the values \<^verbatim>\<open>nan\<close> and \<^verbatim>\<open>inf\<close> are outside this model.
\<close>

fun py_float :: "env \<Rightarrow> pyval \<Rightarrow> exn + real" where
  "py_float e PNone = Inl TypeError"
| "py_float e (PStr s) = (case parse_float e s of None \<Rightarrow> Inl ValueError | Some r \<Rightarrow> Inr r)"
| "py_float e (PInt i) = Inr (of_int i)"
| "py_float e (PFloat r) = Inr r"

fun py_int :: "env \<Rightarrow> pyval \<Rightarrow> exn + int" where
  "py_int e PNone = Inl TypeError"
| "py_int e (PStr s) = (case parse_int e s of None \<Rightarrow> Inl ValueError | Some i \<Rightarrow> Inr i)"
| "py_int e (PInt i) = Inr i"
| "py_int e (PFloat r) = Inr (if 0 \<le> r then \<lfloor>r\<rfloor> else \<lceil>r\<rceil>)"

text \<open>
  \<^verbatim>\<open>end_date - timedelta(days=n)\<close>: \<^verbatim>\<open>timedelta\<close> takes at most 999999999 days, and the
  result must lie between \<^verbatim>\<open>datetime.min\<close> and \<^verbatim>\<open>datetime.max\<close>; otherwise
  \<^verbatim>\<open>OverflowError\<close>.
\<close>

definition datetime_max :: int where
  "datetime_max = 3652059 * microseconds_per_day - 1"

definition minus_days :: "int \<Rightarrow> int \<Rightarrow> exn + int" where
  "minus_days end_date n =
     (if \<bar>n\<bar> > 999999999 then Inl OverflowError
      else (let start_date = end_date - timedelta_days n in
            if start_date < 0 \<or> datetime_max < start_date then Inl OverflowError
            else Inr start_date))"

subsection \<open>The store's matching of a query\<close>

text \<open>
  The query dict has at most the keys \<^verbatim>\<open>id\<close>, \<^verbatim>\<open>$or\<close> (the two base-score clauses, for
  one number) and \<^verbatim>\<open>lastModified\<close> (\<^verbatim>\<open>$gte\<close> and \<^verbatim>\<open>$lte\<close> bounds).
\<close>

record query =
  q_id :: "string option"
  q_or_baseScore :: "real option"
  q_lastModified :: "(string \<times> string) option"

text \<open>
  A dotted path is followed one key at a time; at an array the key is looked up in each
  element that is an object.
\<close>

definition get_key :: "string \<Rightarrow> json \<Rightarrow> json list" where
  "get_key k v =
     (case v of
        JObj kvs \<Rightarrow> (case map_of kvs k of None \<Rightarrow> [] | Some x \<Rightarrow> [x])
      | JArr xs \<Rightarrow>
          concat (map (\<lambda>x. case x of
                              JObj kvs \<Rightarrow> (case map_of kvs k of None \<Rightarrow> [] | Some y \<Rightarrow> [y])
                            | _ \<Rightarrow> []) xs)
      | _ \<Rightarrow> [])"

primrec path_values :: "string list \<Rightarrow> json list \<Rightarrow> json list" where
  "path_values [] vs = vs"
| "path_values (k # ks) vs = path_values ks (concat (map (get_key k) vs))"

definition path_eq :: "string list \<Rightarrow> json \<Rightarrow> doc \<Rightarrow> bool" where
  "path_eq path v d = list_ex (eq_match v) (path_values path [JObj d])"

definition v2_path :: "string list" where
  "v2_path = [''metrics'', ''cvssMetricV2'', ''cvssData'', ''baseScore'']"

definition v3_path :: "string list" where
  "v3_path = [''metrics'', ''cvssMetricV3'', ''cvssData'', ''baseScore'']"

text \<open>
  A range on strings compares them byte by byte and holds of no value of another type;
  on an array each bound is met by some element.
\<close>

fun str_ge :: "string \<Rightarrow> json \<Rightarrow> bool" where
  "str_ge lo (JStr s) = (lo \<le> s)"
| "str_ge lo (JArr xs) = list_ex (\<lambda>x. case x of JStr s \<Rightarrow> lo \<le> s | _ \<Rightarrow> False) xs"
| "str_ge lo _ = False"

fun str_le :: "string \<Rightarrow> json \<Rightarrow> bool" where
  "str_le hi (JStr s) = (s \<le> hi)"
| "str_le hi (JArr xs) = list_ex (\<lambda>x. case x of JStr s \<Rightarrow> s \<le> hi | _ \<Rightarrow> False) xs"
| "str_le hi _ = False"

definition match_id :: "string option \<Rightarrow> doc \<Rightarrow> bool" where
  "match_id q d = (case q of None \<Rightarrow> True | Some i \<Rightarrow> path_eq [''id''] (JStr i) d)"

definition match_baseScore :: "real option \<Rightarrow> doc \<Rightarrow> bool" where
  "match_baseScore q d =
     (case q of None \<Rightarrow> True
      | Some r \<Rightarrow> path_eq v2_path (JNum r) d \<or> path_eq v3_path (JNum r) d)"

definition match_lastModified :: "(string \<times> string) option \<Rightarrow> doc \<Rightarrow> bool" where
  "match_lastModified q d =
     (case q of None \<Rightarrow> True
      | Some (lo, hi) \<Rightarrow>
          (case map_of d ''lastModified'' of
             None \<Rightarrow> False
           | Some v \<Rightarrow> str_ge lo v \<and> str_le hi v))"

definition matches :: "query \<Rightarrow> doc \<Rightarrow> bool" where
  "matches q d \<longleftrightarrow>
     match_id (q_id q) d \<and> match_baseScore (q_or_baseScore q) d
     \<and> match_lastModified (q_lastModified q) d"

subsection \<open>Building the query and running it\<close>

text \<open>
  The three \<^verbatim>\<open>if\<close> blocks that fill the query dict; \<open>Inl x\<close> is an exception raised by
  \<^verbatim>\<open>float\<close>, \<^verbatim>\<open>int\<close> or the date arithmetic, all of them outside the \<^verbatim>\<open>try\<close>.
\<close>

definition build_query :: "env \<Rightarrow> string option \<Rightarrow> pyval \<Rightarrow> pyval \<Rightarrow> exn + query" where
  "build_query e cve_id base_score last_modified_days =
     (let qi = (if truthy_str cve_id then cve_id else None) in
      case (if truthy_pyval base_score then map_sum id Some (py_float e base_score)
            else Inr None) of
        Inl x \<Rightarrow> Inl x
      | Inr qs \<Rightarrow>
          (if last_modified_days \<noteq> PNone then
             (case py_int e last_modified_days of
                Inl x \<Rightarrow> Inl x
              | Inr n \<Rightarrow>
                  (case minus_days (now e) n of
                     Inl x \<Rightarrow> Inl x
                   | Inr start_date \<Rightarrow>
                       Inr \<lparr>q_id = qi, q_or_baseScore = qs,
                            q_lastModified =
                              Some (isoformat e start_date, isoformat e (now e))\<rparr>))
           else Inr \<lparr>q_id = qi, q_or_baseScore = qs, q_lastModified = None\<rparr>))"

definition fetch_filtered_cve_data ::
  "env \<Rightarrow> string option \<Rightarrow> pyval \<Rightarrow> pyval \<Rightarrow> state \<Rightarrow> (exn + doc list) \<times> state" where
  "fetch_filtered_cve_data e cve_id base_score last_modified_days s =
     (case build_query e cve_id base_score last_modified_days of
        Inl x \<Rightarrow> (Inl x, s)
      | Inr q \<Rightarrow>
          (let s1 = log_info ''Query'' s in
           if find_fails e
           then (Inr [], log_error ''Error fetching filtered CVE data'' s1)
           else (Inr (filter (matches q) (collection s1)), s1)))"

section \<open>Example feeds, stores and environments\<close>

text \<open>
  Concrete inputs on which the model is run below. The times are microseconds since
  \<^verbatim>\<open>datetime.min\<close>: 2024-01-01, 2024-04-30 (120 days later), 2024-05-01 (121 days later)
  and, for the clock, 2024-05-25; the tables give the library functions on the few
  strings that the runs use. A date string with an offset parses to an aware datetime,
  one without to a naive datetime.
\<close>

definition example_time :: int where
  "example_time = 63852192000000000"

definition example_fromisoformat :: "string \<Rightarrow> pydatetime option" where
  "example_fromisoformat =
     map_of [(''2024-01-01T00:00:00+00:00'', Aware 63839664000000000),
             (''2024-04-30T00:00:00+00:00'', Aware 63850032000000000),
             (''2024-05-01T00:00:00+00:00'', Aware 63850118400000000),
             (''2024-01-01T00:00:00'', Naive 63839664000000000)]"

definition example_isoformat :: "int \<Rightarrow> string" where
  "example_isoformat t =
     (if t = 63852192000000000 then ''2024-05-25T00:00:00+00:00''
      else if t = 63849600000000000 then ''2024-04-25T00:00:00+00:00''
      else ''0001-01-01T00:00:00+00:00'')"

text \<open>Two records of the feed that carry the same id.\<close>

definition record_1 :: doc where
  "record_1 = [(''id'', JStr ''CVE-2024-0001''),
               (''published'', JStr ''2024-01-05T10:00:00.000''),
               (''lastModified'', JStr ''2024-05-20T08:30:00.000'')]"

definition record_1_again :: doc where
  "record_1_again = [(''id'', JStr ''CVE-2024-0001''),
                     (''published'', JStr ''2024-01-05T10:00:00.000''),
                     (''lastModified'', JStr ''2024-05-21T09:00:00.000'')]"

text \<open>A feed that answers every GET with the same one page of these two records.\<close>

definition example_page :: response where
  "example_page = \<lparr>totalResults = Some 2,
                    vulnerabilities = Some [Some record_1, Some record_1_again],
                    timestamp = Some ''2024-05-24T12:00:00.000'', other_keys = True\<rparr>"

definition example_feed :: "nat \<Rightarrow> params \<Rightarrow> http_reply option" where
  "example_feed n p = Some \<lparr>status = 200, body = example_page\<rparr>"

definition example_env :: env where
  "example_env = \<lparr>upstream = example_feed, fromisoformat = example_fromisoformat,
                   now = example_time, isoformat = example_isoformat,
                   parse_float = map_of [(''7.5'', 7.5), (''0'', 0)],
                   parse_int = map_of [(''30'', 30)],
                   unique_violation = no_unique_index, find_fails = False\<rparr>"

text \<open>Two stored records with a base score, 7.5 under version 2 and 0 under version 3.\<close>

definition scored_75 :: doc where
  "scored_75 = [(''id'', JStr ''CVE-2024-0002''),
                (''lastModified'', JStr ''2024-05-20''),
                (''metrics'', JObj [(''cvssMetricV2'',
                   JArr [JObj [(''cvssData'', JObj [(''baseScore'', JNum 7.5)])]])])]"

definition scored_0 :: doc where
  "scored_0 = [(''id'', JStr ''CVE-2024-0003''),
               (''lastModified'', JStr ''2024-03-01''),
               (''metrics'', JObj [(''cvssMetricV3'',
                  JArr [JObj [(''cvssData'', JObj [(''baseScore'', JNum 0)])]])])]"

text \<open>Two records with different ids, for a batch.\<close>

definition rec_A :: doc where
  "rec_A = [(''id'', JStr ''CVE-2024-0004'')]"

definition rec_B :: doc where
  "rec_B = [(''id'', JStr ''CVE-2024-0005'')]"

text \<open>The states that the runs on the example feed go through.\<close>

definition example_synced :: state where
  "example_synced =
     \<lparr>collection = [[(''id'', JStr ''CVE-2024-0001''), (''published'', JStr ''2024-01-05''),
                      (''lastModified'', JStr ''2024-05-20'')],
                     [(''id'', JStr ''CVE-2024-0001''), (''published'', JStr ''2024-01-05''),
                      (''lastModified'', JStr ''2024-05-21'')]],
      last_sync_timestamp = Some ''2024-05-24T12:00:00.000'',
      requests = [\<lparr>startIndex = Some 0, resultsPerPage = Some 2000,
                    lastModStartDate = None, lastModEndDate = None\<rparr>,
                  no_params],
      bulk_writes = 1,
      logged = [LogInfo ''Starting CVE data synchronization.'',
                LogInfo ''Bulk operations executed successfully.'',
                LogInfo ''Processed data from index'',
                LogInfo ''Updated last synchronization timestamp'']\<rparr>"

definition example_resynced :: state where
  "example_resynced =
     example_synced\<lparr>requests := requests example_synced @
        [\<lparr>startIndex = Some 0, resultsPerPage = Some 2000,
           lastModStartDate = Some ''2024-05-24T12:00:00.000'',
           lastModEndDate = Some ''2024-05-25T00:00:00+00:00''\<rparr>,
         no_params],
      logged := logged example_synced @
        [LogInfo ''Starting CVE data synchronization.'',
         LogInfo ''Processed data from index'',
         LogInfo ''Updated last synchronization timestamp'']\<rparr>"

definition example_after_view :: state where
  "example_after_view =
     example_synced\<lparr>requests := requests example_synced @ [page_params 0 2000 None None],
       logged := logged example_synced @ [LogInfo ''Processed data from index'']\<rparr>"

section \<open>The ids of stored records and of a page\<close>

text \<open>
  The ids of the records of a collection that have one, in order, and the ids that the
  wrappers of a page carry. They serve to state when the store holds one record per id.
\<close>

definition stored_ids :: "doc list \<Rightarrow> json list" where
  "stored_ids c = List.map_filter (\<lambda>d. map_of d ''id'') c"

definition page_ids :: "doc option list \<Rightarrow> json list" where
  "page_ids ws =
     List.map_filter (\<lambda>w. case w of None \<Rightarrow> None | Some d \<Rightarrow> map_of d ''id'') ws"

lemmas example_defs = example_time_def example_fromisoformat_def example_isoformat_def
  record_1_def record_1_again_def example_page_def example_feed_def example_env_def
  scored_75_def scored_0_def rec_A_def rec_B_def

lemmas sync_defs = synchronize_cve_data_def validate_window_def replace_Z_def
  fetch_and_store_cve_data_def fetch_data_def page_params_def truthy_response_def
  log_info_def log_error_def update_last_sync_timestamp_def no_params_def process_start_def
  execute_bulk_operations_def is_valid_cve_def count_documents_id_def clean_cve_data_def
  clean_date_field_def date_fields_def no_unique_index_def unique_index_on_id_def
  clean_cve_data_log_def clean_date_field_log_def log_entries_def
  max_window_def timedelta_days_def microseconds_per_day_def Let_def

lemmas query_defs = fetch_filtered_cve_data_def build_query_def matches_def match_id_def
  match_baseScore_def match_lastModified_def path_eq_def v2_path_def v3_path_def get_key_def
  minus_days_def datetime_max_def timedelta_days_def microseconds_per_day_def log_info_def
  log_error_def process_start_def Let_def

section \<open>Cleaning\<close>

lemma map_fst_clean_date_field: "map fst (clean_date_field f d) = map fst d"
proof (cases "map_of d f")
  case None
  then show ?thesis by (simp add: clean_date_field_def)
next
  case (Some v)
  then have "(f, v) \<in> set d" by (rule map_of_SomeD)
  then have "f \<in> fst ` set d" by force
  then show ?thesis
    using Some by (simp add: clean_date_field_def update_keys split: sum.splits)
qed

lemma map_of_clean_date_field:
  "map_of (clean_date_field f d) k
     = (if k = f then map_option cleaned_value (map_of d k) else map_of d k)"
proof (cases "map_of d f")
  case None
  then show ?thesis by (auto simp: clean_date_field_def)
next
  case (Some v)
  then show ?thesis
    by (cases v) (auto simp: clean_date_field_def update_conv')
qed

text \<open>
  C5, as the code has it: \<^verbatim>\<open>clean_cve_data\<close> keeps the keys of the record and their
  order, leaves every field other than \<^verbatim>\<open>published\<close> and \<^verbatim>\<open>lastModified\<close> as it is, and
  replaces each of these two, when present, by the part of its string before the first
  \<^verbatim>\<open>T\<close> (the whole string when there is no \<^verbatim>\<open>T\<close>), or by \<^verbatim>\<open>None\<close> when its value is not a
  string. It is a total function: nothing is raised. In particular
  \<^verbatim>\<open>{"published": "2024-01-05T10:00:00Z"}\<close> becomes \<^verbatim>\<open>{"published": "2024-01-05"}\<close>, and
  \<^verbatim>\<open>{"published": "not-a-date"}\<close> is returned unchanged.
\<close>

theorem clean_cve_data_date_fields:
  "map fst (clean_cve_data d) = map fst d
   \<and> map_of (clean_cve_data d) k
       = (if k = ''published'' \<or> k = ''lastModified''
          then map_option cleaned_value (map_of d k) else map_of d k)
   \<and> cleaned_value (JStr s) = JStr (takeWhile (\<lambda>c. c \<noteq> CHR ''T'') s)
   \<and> (cleaned_value v = JNull \<or> (\<exists>s. v = JStr s))
   \<and> clean_cve_data [(''published'', JStr ''2024-01-05T10:00:00Z'')]
       = [(''published'', JStr ''2024-01-05'')]
   \<and> clean_cve_data [(''published'', JStr ''not-a-date'')]
       = [(''published'', JStr ''not-a-date'')]"
proof -
  have "map fst (clean_cve_data d) = map fst d"
    by (simp add: clean_cve_data_def date_fields_def map_fst_clean_date_field)
  moreover have "map_of (clean_cve_data d) k
       = (if k = ''published'' \<or> k = ''lastModified''
          then map_option cleaned_value (map_of d k) else map_of d k)"
    by (simp add: clean_cve_data_def date_fields_def map_of_clean_date_field)
  moreover have "cleaned_value v = JNull \<or> (\<exists>s. v = JStr s)"
    by (cases v) simp_all
  moreover have "clean_cve_data [(''published'', JStr ''2024-01-05T10:00:00Z'')]
       = [(''published'', JStr ''2024-01-05'')]"
    by (simp add: clean_cve_data_def date_fields_def clean_date_field_def)
  moreover have "clean_cve_data [(''published'', JStr ''not-a-date'')]
       = [(''published'', JStr ''not-a-date'')]"
    by (simp add: clean_cve_data_def date_fields_def clean_date_field_def)
  ultimately show ?thesis by simp
qed

text \<open>
  C5 as it is stated fails on its own example: a malformed date string is not set to
  \<^verbatim>\<open>None\<close>; \<^verbatim>\<open>"not-a-date"\<close> has no \<^verbatim>\<open>T\<close> and stays.
\<close>

theorem clean_cve_data_malformed_counterexample:
  "clean_cve_data [(''published'', JStr ''not-a-date'')] \<noteq> [(''published'', JNull)]"
  by (simp add: clean_cve_data_def date_fields_def clean_date_field_def)

text \<open>The amended C5 on a record with a date, a non-string date and another field.\<close>

theorem clean_cve_data_date_fields_witness:
  "map_of (clean_cve_data [(''id'', JStr ''CVE-2024-0001''),
                           (''published'', JStr ''2024-01-05T10:00:00.000''),
                           (''lastModified'', JNum 20240105)]) ''published''
     = Some (JStr ''2024-01-05'')
   \<and> map_of (clean_cve_data [(''id'', JStr ''CVE-2024-0001''),
                             (''published'', JStr ''2024-01-05T10:00:00.000''),
                             (''lastModified'', JNum 20240105)]) ''lastModified''
     = Some JNull
   \<and> map_of (clean_cve_data [(''id'', JStr ''CVE-2024-0001''),
                             (''published'', JStr ''2024-01-05T10:00:00.000''),
                             (''lastModified'', JNum 20240105)]) ''id''
     = Some (JStr ''CVE-2024-0001'')"
  using clean_cve_data_date_fields
          [of "[(''id'', JStr ''CVE-2024-0001''),
                (''published'', JStr ''2024-01-05T10:00:00.000''),
                (''lastModified'', JNum 20240105)]" "''published''"]
        clean_cve_data_date_fields
          [of "[(''id'', JStr ''CVE-2024-0001''),
                (''published'', JStr ''2024-01-05T10:00:00.000''),
                (''lastModified'', JNum 20240105)]" "''lastModified''"]
        clean_cve_data_date_fields
          [of "[(''id'', JStr ''CVE-2024-0001''),
                (''published'', JStr ''2024-01-05T10:00:00.000''),
                (''lastModified'', JNum 20240105)]" "''id''"]
  by simp

section \<open>The batch write\<close>

lemma bulk_write_take:
  "bulk_write uv c ops = (c', ok) \<Longrightarrow>
     \<exists>k\<le>length ops. c' = c @ take k ops \<and> ok = (k = length ops)
        \<and> (k < length ops \<longrightarrow> uv (c @ take k ops) (ops ! k))
        \<and> (\<forall>j<k. \<not> uv (c @ take j ops) (ops ! j))"
proof (induction ops arbitrary: c)
  case Nil
  then show ?case by auto
next
  case (Cons d ds)
  show ?case
  proof (cases "uv c d")
    case True
    with Cons.prems have "c' = c" "ok = False" by auto
    with True show ?thesis by (intro exI[of _ 0]) auto
  next
    case False
    with Cons.prems have "bulk_write uv (c @ [d]) ds = (c', ok)" by simp
    from Cons.IH[OF this] obtain k where k: "k \<le> length ds" "c' = (c @ [d]) @ take k ds"
      "ok = (k = length ds)" "k < length ds \<longrightarrow> uv ((c @ [d]) @ take k ds) (ds ! k)"
      "\<forall>j<k. \<not> uv ((c @ [d]) @ take j ds) (ds ! j)" by blast
    have "\<forall>j<Suc k. \<not> uv (c @ take j (d # ds)) ((d # ds) ! j)"
    proof (intro allI impI)
      fix j assume "j < Suc k"
      then show "\<not> uv (c @ take j (d # ds)) ((d # ds) ! j)"
        using False k(5) by (cases j) auto
    qed
    with k show ?thesis by (intro exI[of _ "Suc k"]) auto
  qed
qed

text \<open>
  C4, as the code has it: \<^verbatim>\<open>execute_bulk_operations\<close> makes one ordered \<^verbatim>\<open>bulk_write\<close>
  call for a non-empty batch and none for an empty one. The batch is inserted in order
  up to the first record that the collection rejects: the \<open>k\<close> records before it are
  committed, that record and every record after it are not written, whether they
  conflict or not. The failure is logged and not raised, and there is no second
  call. On an empty batch the state is unchanged.
\<close>

theorem execute_bulk_operations_ordered:
  "\<exists>k\<le>length ops.
      collection (execute_bulk_operations e ops s) = collection s @ take k ops
    \<and> (\<forall>j<k. \<not> unique_violation e (collection s @ take j ops) (ops ! j))
    \<and> (k < length ops \<longrightarrow> unique_violation e (collection s @ take k ops) (ops ! k))
    \<and> bulk_writes (execute_bulk_operations e ops s)
        = (if ops = [] then bulk_writes s else Suc (bulk_writes s))
    \<and> logged (execute_bulk_operations e ops s)
        = (if ops = [] then logged s
           else if k = length ops
           then logged s @ [LogInfo ''Bulk operations executed successfully.'']
           else logged s @ [LogError ''Bulk write error''])
    \<and> (ops = [] \<longrightarrow> execute_bulk_operations e ops s = s)"
proof (cases "ops = []")
  case True
  then show ?thesis by (simp add: execute_bulk_operations_def)
next
  case False
  obtain c' ok where bw: "bulk_write (unique_violation e) (collection s) ops = (c', ok)"
    by (cases "bulk_write (unique_violation e) (collection s) ops")
  from bulk_write_take[OF bw] obtain k where k: "k \<le> length ops"
    "c' = collection s @ take k ops" "ok = (k = length ops)"
    "k < length ops \<longrightarrow> unique_violation e (collection s @ take k ops) (ops ! k)"
    "\<forall>j<k. \<not> unique_violation e (collection s @ take j ops) (ops ! j)" by blast
  have "collection (execute_bulk_operations e ops s) = c'"
    "bulk_writes (execute_bulk_operations e ops s) = Suc (bulk_writes s)"
    "logged (execute_bulk_operations e ops s)
       = (if ok then logged s @ [LogInfo ''Bulk operations executed successfully.'']
          else logged s @ [LogError ''Bulk write error''])"
    using False bw
    by (simp_all add: execute_bulk_operations_def Let_def log_info_def log_error_def)
  with k False show ?thesis by (intro exI[of _ k]) simp
qed

text \<open>
  C4 as it is stated fails: on a collection with a unique index on \<^verbatim>\<open>id\<close>, the batch of
  \<open>rec_A\<close>, \<open>rec_A\<close> again and \<open>rec_B\<close> stops at the second record; \<open>rec_B\<close> conflicts with
  nothing and is not committed.
\<close>

theorem execute_bulk_operations_counterexample:
  "collection (execute_bulk_operations (example_env\<lparr>unique_violation := unique_index_on_id\<rparr>)
                 [rec_A, rec_A, rec_B] (process_start []))
     = [rec_A]
   \<and> \<not> unique_index_on_id [rec_A] rec_B
   \<and> \<not> unique_index_on_id [] rec_B"
  by (simp add: execute_bulk_operations_def unique_index_on_id_def process_start_def
        log_error_def log_info_def example_defs)

text \<open>The amended C4 on that batch: one record committed, one call, the error logged.\<close>

theorem execute_bulk_operations_ordered_witness:
  "collection (execute_bulk_operations (example_env\<lparr>unique_violation := unique_index_on_id\<rparr>)
                 [rec_A, rec_A, rec_B] (process_start []))
     = take 1 [rec_A, rec_A, rec_B]
   \<and> bulk_writes (execute_bulk_operations (example_env\<lparr>unique_violation := unique_index_on_id\<rparr>)
                    [rec_A, rec_A, rec_B] (process_start [])) = 1
   \<and> logged (execute_bulk_operations (example_env\<lparr>unique_violation := unique_index_on_id\<rparr>)
                    [rec_A, rec_A, rec_B] (process_start [])) = [LogError ''Bulk write error'']
   \<and> execute_bulk_operations (example_env\<lparr>unique_violation := unique_index_on_id\<rparr>)
                    [] (process_start []) = process_start []"
  using execute_bulk_operations_ordered
          [of "[rec_A, rec_A, rec_B]" "example_env\<lparr>unique_violation := unique_index_on_id\<rparr>"
              "process_start []"]
        execute_bulk_operations_ordered
          [of "[]" "example_env\<lparr>unique_violation := unique_index_on_id\<rparr>" "process_start []"]
  by (simp add: execute_bulk_operations_def unique_index_on_id_def process_start_def
        log_error_def log_info_def example_defs)

section \<open>The requests of the fetch loop\<close>

lemma fetch_data_requests: "fetch_data e p s = (r, s1) \<Longrightarrow> requests s1 = requests s @ [p]"
  by (auto simp: fetch_data_def Let_def log_error_def split: option.splits if_splits)

lemma fetch_data_watermark:
  "fetch_data e p s = (r, s1) \<Longrightarrow> last_sync_timestamp s1 = last_sync_timestamp s"
  by (auto simp: fetch_data_def Let_def log_error_def split: option.splits if_splits)

lemma execute_requests: "requests (execute_bulk_operations e ops s) = requests s"
  by (auto simp: execute_bulk_operations_def Let_def log_info_def log_error_def split: prod.splits)

lemma execute_watermark:
  "last_sync_timestamp (execute_bulk_operations e ops s) = last_sync_timestamp s"
  by (auto simp: execute_bulk_operations_def Let_def log_info_def log_error_def split: prod.splits)

lemma page_params_window:
  "lastModStartDate (page_params i n lo hi) = (if truthy_str lo \<and> truthy_str hi then lo else None)"
  "lastModEndDate (page_params i n lo hi) = (if truthy_str lo \<and> truthy_str hi then hi else None)"
  "startIndex (page_params i n lo hi) = Some i"
  "resultsPerPage (page_params i n lo hi) = Some n"
  by (auto simp: page_params_def)

lemma page_params_not_both:
  "\<not> (truthy_str lo \<and> truthy_str hi) \<Longrightarrow> page_params i n lo hi = page_params i n None None"
  by (auto simp: page_params_def)

text \<open>One iteration of the loop, for the proofs: either the run ends in a state that has
  issued exactly the page request, or the loop goes on from such a state.\<close>

lemma fetch_loop_step:
  assumes "fetch_loop (Suc fuel) e i n lo hi tot s = Some s'"
    and "case tot of None \<Rightarrow> True | Some t \<Rightarrow> i < t"
  shows "(requests s' = requests s @ [page_params i n lo hi]
            \<and> last_sync_timestamp s' = last_sync_timestamp s)
       \<or> (\<exists>s2 t. fetch_loop fuel e (i + n) n lo hi (Some t) s2 = Some s'
            \<and> requests s2 = requests s @ [page_params i n lo hi]
            \<and> last_sync_timestamp s2 = last_sync_timestamp s)"
proof -
  obtain r s1 where fd: "fetch_data e (page_params i n lo hi) s = (r, s1)"
    by (cases "fetch_data e (page_params i n lo hi) s")
  note r1 = fetch_data_requests[OF fd] and w1 = fetch_data_watermark[OF fd]
  show ?thesis
  proof (cases r)
    case None
    with assms fd have "s' = s1" by simp
    with r1 w1 show ?thesis by simp
  next
    case (Some data)
    show ?thesis
    proof (cases "truthy_response data \<and> vulnerabilities data \<noteq> None \<and> vulnerabilities data \<noteq> Some []")
      case False
      with assms fd Some have "s' = s1 \<or> s' = log_info ''No vulnerabilities found.'' s1"
        by (auto simp: Let_def split: option.splits if_splits)
      with r1 w1 show ?thesis by (auto simp: log_info_def)
    next
      case True
      then obtain vulns where v: "vulnerabilities data = Some vulns" "vulns \<noteq> []" by auto
      define ops where "ops = prepare_bulk_operations (collection s1) vulns"
      define s1a where "s1a = log_entries (prepare_log (collection s1) vulns) s1"
      define s2 where "s2 = log_info ''Processed data from index''
         (if ops \<noteq> [] then execute_bulk_operations e ops s1a else s1a)"
      define t where "t = (case totalResults data of None \<Rightarrow> 0 | Some t \<Rightarrow> t)"
      from assms fd Some True v
      have "fetch_loop fuel e (i + n) n lo hi (Some t) s2 = Some s'"
        by (auto simp: Let_def ops_def s1a_def s2_def t_def split: if_splits)
      moreover have "requests s2 = requests s @ [page_params i n lo hi]"
        "last_sync_timestamp s2 = last_sync_timestamp s"
        using r1 w1
        by (simp_all add: s2_def s1a_def log_info_def log_entries_def execute_requests
              execute_watermark)
      ultimately show ?thesis by blast
    qed
  qed
qed

lemma fetch_loop_requests:
  "fetch_loop fuel e i n lo hi tot s = Some s' \<Longrightarrow>
     last_sync_timestamp s' = last_sync_timestamp s
     \<and> (\<exists>ps. requests s' = requests s @ ps \<and> (\<forall>p\<in>set ps. \<exists>j. p = page_params j n lo hi)
          \<and> (tot = None \<longrightarrow> (\<exists>rest. ps = page_params i n lo hi # rest)))"
proof (induction fuel arbitrary: i tot s)
  case 0
  then show ?case by simp
next
  case (Suc fuel)
  show ?case
  proof (cases "case tot of None \<Rightarrow> True | Some t \<Rightarrow> i < t")
    case False
    with Suc.prems have "s' = s" "tot \<noteq> None" by (auto split: option.splits)
    then show ?thesis by simp
  next
    case True
    from fetch_loop_step[OF Suc.prems True] show ?thesis
    proof (elim disjE exE conjE)
      assume "requests s' = requests s @ [page_params i n lo hi]"
        "last_sync_timestamp s' = last_sync_timestamp s"
      then show ?thesis by auto
    next
      fix s2 t
      assume l: "fetch_loop fuel e (i + n) n lo hi (Some t) s2 = Some s'"
        and r2: "requests s2 = requests s @ [page_params i n lo hi]"
        and w2: "last_sync_timestamp s2 = last_sync_timestamp s"
      from Suc.IH[OF l] obtain ps where "last_sync_timestamp s' = last_sync_timestamp s2"
        "requests s' = requests s2 @ ps" "\<forall>p\<in>set ps. \<exists>j. p = page_params j n lo hi" by blast
      with r2 w2 show ?thesis
        by (intro conjI exI[of _ "page_params i n lo hi # ps"]) auto
    qed
  qed
qed

lemma fetch_loop_not_both:
  "\<not> (truthy_str lo \<and> truthy_str hi) \<Longrightarrow>
     fetch_loop fuel e i n lo hi tot s = fetch_loop fuel e i n None None tot s"
proof (induction fuel arbitrary: i tot s)
  case 0
  then show ?case by simp
next
  case (Suc fuel)
  have pp: "page_params i n lo hi = page_params i n None None"
    using Suc.prems by (rule page_params_not_both)
  show ?case
    unfolding fetch_loop.simps pp
    by (simp add: Suc.IH[OF Suc.prems] Let_def split: prod.splits option.splits)
qed

lemma update_requests:
  "requests (update_last_sync_timestamp e s) = requests s @ [no_params]"
  by (auto simp: update_last_sync_timestamp_def log_info_def split: prod.splits option.splits
        dest: fetch_data_requests)

text \<open>The requests of a run that passes the validation: the pages of one window, then the
  metadata call.\<close>

lemma synchronize_pass:
  assumes "validate_window e a b = Pass"
  shows "synchronize_cve_data fuel e a b s =
           map_option (\<lambda>s1. (Inr (), update_last_sync_timestamp e s1))
             (if truthy_str (last_sync_timestamp s) \<and> \<not> (truthy_str a \<and> truthy_str b)
              then fetch_and_store_cve_data fuel e 0 2000 (last_sync_timestamp s)
                     (Some (isoformat e (now e)))
                     (log_info ''Starting CVE data synchronization.'' s)
              else fetch_and_store_cve_data fuel e 0 2000 a b
                     (log_info ''Starting CVE data synchronization.'' s))"
  using assms
  by (auto simp: synchronize_cve_data_def Let_def log_info_def split: option.splits)

lemma fetch_and_store_requests:
  assumes "fetch_and_store_cve_data fuel e i n lo hi s = Some s'"
  shows "last_sync_timestamp s' = last_sync_timestamp s
     \<and> (\<exists>rest. requests s' = requests s @ page_params i n lo hi # rest
           \<and> (\<forall>p\<in>set rest. \<exists>j. p = page_params j n lo hi))"
  using fetch_loop_requests[OF assms[unfolded fetch_and_store_cve_data_def]] by auto

lemma validate_window_not_both:
  "\<not> (truthy_str a \<and> truthy_str b) \<Longrightarrow> validate_window e a b = Pass"
  by (cases a; cases b) (auto simp: validate_window_def)

lemma synchronize_requests:
  assumes run: "synchronize_cve_data fuel e a b s = Some (r, s')"
    and pass: "validate_window e a b = Pass"
    and lo: "lo = (if truthy_str (last_sync_timestamp s) \<and> \<not> (truthy_str a \<and> truthy_str b)
                   then last_sync_timestamp s else a)"
    and hi: "hi = (if truthy_str (last_sync_timestamp s) \<and> \<not> (truthy_str a \<and> truthy_str b)
                   then Some (isoformat e (now e)) else b)"
  shows "\<exists>pages. pages \<noteq> [] \<and> requests s' = requests s @ pages @ [no_params]
           \<and> hd pages = page_params 0 2000 lo hi
           \<and> (\<forall>p\<in>set pages. \<exists>j. p = page_params j 2000 lo hi)"
proof -
  define s0 where "s0 = log_info ''Starting CVE data synchronization.'' s"
  from run synchronize_pass[OF pass, of fuel s]
  obtain s1 where fs: "fetch_and_store_cve_data fuel e 0 2000 lo hi s0 = Some s1"
    and s': "s' = update_last_sync_timestamp e s1"
    by (auto simp: lo hi s0_def split: if_splits)
  from fetch_and_store_requests[OF fs] obtain rest where
    rest: "requests s1 = requests s0 @ page_params 0 2000 lo hi # rest"
      "\<forall>p\<in>set rest. \<exists>j. p = page_params j 2000 lo hi" by blast
  have all: "\<forall>p\<in>set (page_params 0 2000 lo hi # rest). \<exists>j. p = page_params j 2000 lo hi"
    using rest(2) by auto
  have "requests s' = requests s @ (page_params 0 2000 lo hi # rest) @ [no_params]"
    using rest(1) by (simp add: s' update_requests s0_def log_info_def)
  with all show ?thesis
    by (intro exI[of _ "page_params 0 2000 lo hi # rest"]) simp
qed

text \<open>The same, read off the fields of the requests.\<close>

lemma synchronize_requests_fields:
  assumes run: "synchronize_cve_data fuel e a b s = Some (r, s')"
    and pass: "validate_window e a b = Pass"
    and lo: "lo = (if truthy_str (last_sync_timestamp s) \<and> \<not> (truthy_str a \<and> truthy_str b)
                   then last_sync_timestamp s else a)"
    and hi: "hi = (if truthy_str (last_sync_timestamp s) \<and> \<not> (truthy_str a \<and> truthy_str b)
                   then Some (isoformat e (now e)) else b)"
    and w: "w1 = (if truthy_str lo \<and> truthy_str hi then lo else None)"
           "w2 = (if truthy_str lo \<and> truthy_str hi then hi else None)"
  shows "\<exists>pages. pages \<noteq> [] \<and> requests s' = requests s @ pages @ [no_params]
           \<and> startIndex (hd pages) = Some 0
           \<and> (\<forall>p\<in>set pages. resultsPerPage p = Some 2000
                 \<and> lastModStartDate p = w1 \<and> lastModEndDate p = w2)"
proof -
  from synchronize_requests[OF run pass lo hi] obtain pages where
    p: "pages \<noteq> []" "requests s' = requests s @ pages @ [no_params]"
       "hd pages = page_params 0 2000 lo hi"
    and all: "\<forall>p\<in>set pages. \<exists>j. p = page_params j 2000 lo hi" by blast
  have "resultsPerPage p = Some 2000 \<and> lastModStartDate p = w1 \<and> lastModEndDate p = w2"
    if "p \<in> set pages" for p
  proof -
    from all that obtain j where "p = page_params j 2000 lo hi" by blast
    then show ?thesis by (simp add: page_params_window w)
  qed
  moreover have "startIndex (hd pages) = Some 0"
    by (simp add: p(3) page_params_window)
  ultimately show ?thesis using p(1,2) by blast
qed

section \<open>One record per id\<close>

lemma stored_ids_Nil [simp]: "stored_ids [] = []"
  by (simp add: stored_ids_def)

lemma stored_ids_Cons [simp]:
  "stored_ids (d # c)
     = (case map_of d ''id'' of None \<Rightarrow> stored_ids c | Some v \<Rightarrow> v # stored_ids c)"
  by (simp add: stored_ids_def split: option.splits)

lemma stored_ids_append [simp]: "stored_ids (c @ c') = stored_ids c @ stored_ids c'"
  by (simp add: stored_ids_def map_filter_def)

lemma eq_match_refl: "eq_match v v"
  by (cases v) simp_all

lemma map_of_clean_id: "map_of (clean_cve_data d) ''id'' = map_of d ''id''"
  by (simp add: clean_cve_data_def date_fields_def map_of_clean_date_field)

text \<open>An admissible record has an id that no stored record has.\<close>

lemma is_valid_cve_fresh:
  assumes "is_valid_cve c d"
  shows "\<exists>v. map_of d ''id'' = Some v \<and> v \<notin> set (stored_ids c)"
proof -
  from assms obtain v where v: "map_of d ''id'' = Some v"
    by (cases "map_of d ''id''") (auto simp: is_valid_cve_def)
  with assms have "count_documents_id c v = 0"
    by (auto simp: is_valid_cve_def Let_def split: if_splits)
  then have none:
    "\<forall>x\<in>set c. \<not> (case map_of x ''id'' of None \<Rightarrow> False | Some y \<Rightarrow> eq_match v y)"
    by (auto simp: count_documents_id_def min_def filter_empty_conv split: if_splits)
  have "v \<notin> set (stored_ids c)"
  proof
    assume "v \<in> set (stored_ids c)"
    then obtain x where "x \<in> set c" "map_of x ''id'' = Some v"
      by (auto simp: stored_ids_def map_filter_def)
    with none eq_match_refl[of v] show False by auto
  qed
  with v show ?thesis by blast
qed

text \<open>
  The batch prepared from a page: its ids are ids of the page that the collection does
  not hold, and they are distinct when those of the page are. Nothing compares the
  records of one page with each other.
\<close>

lemma prepare_bulk_operations_ids:
  "distinct (page_ids ws) \<Longrightarrow>
     distinct (stored_ids (prepare_bulk_operations c ws))
     \<and> set (stored_ids (prepare_bulk_operations c ws)) \<subseteq> set (page_ids ws) - set (stored_ids c)"
proof (induction ws)
  case Nil
  then show ?case by simp
next
  case (Cons w ws)
  define d where "d = (case w of None \<Rightarrow> [] | Some d \<Rightarrow> d)"
  have pw: "page_ids (w # ws)
      = (case map_of d ''id'' of None \<Rightarrow> page_ids ws | Some v \<Rightarrow> v # page_ids ws)"
    unfolding page_ids_def d_def by (cases w) (simp_all split: option.splits)
  show ?case
  proof (cases "is_valid_cve c d")
    case False
    then have "prepare_bulk_operations c (w # ws) = prepare_bulk_operations c ws"
      by (simp add: d_def)
    moreover from Cons.prems pw
    have "distinct (page_ids ws)" "set (page_ids ws) \<subseteq> set (page_ids (w # ws))"
      by (auto split: option.splits)
    ultimately show ?thesis using Cons.IH by auto
  next
    case True
    from is_valid_cve_fresh[OF True] obtain v where v: "map_of d ''id'' = Some v"
      "v \<notin> set (stored_ids c)" by blast
    from True have p: "prepare_bulk_operations c (w # ws)
        = clean_cve_data d # prepare_bulk_operations c ws"
      by (simp add: d_def)
    from Cons.prems pw v have dist: "distinct (page_ids ws)" "v \<notin> set (page_ids ws)"
      and pv: "page_ids (w # ws) = v # page_ids ws"
      by auto
    from Cons.IH[OF dist(1)] have ih: "distinct (stored_ids (prepare_bulk_operations c ws))"
      "set (stored_ids (prepare_bulk_operations c ws)) \<subseteq> set (page_ids ws) - set (stored_ids c)"
      by auto
    show ?thesis
      unfolding p pv using ih dist(2) v by (auto simp: map_of_clean_id)
  qed
qed

lemma stored_ids_take:
  assumes "distinct (stored_ids ops)"
  shows "distinct (stored_ids (take k ops))
       \<and> set (stored_ids (take k ops)) \<subseteq> set (stored_ids ops)"
proof -
  have "stored_ids ops = stored_ids (take k ops) @ stored_ids (drop k ops)"
    by (metis append_take_drop_id stored_ids_append)
  with assms show ?thesis by auto
qed

text \<open>What a batch write leaves: a prefix of the batch, each record of it accepted.\<close>

lemma execute_collection:
  "\<exists>k\<le>length ops.
      collection (execute_bulk_operations e ops s) = collection s @ take k ops
    \<and> (\<forall>j<k. \<not> unique_violation e (collection s @ take j ops) (ops ! j))"
proof (cases "ops = []")
  case True
  then show ?thesis by (simp add: execute_bulk_operations_def)
next
  case False
  obtain c' ok where bw: "bulk_write (unique_violation e) (collection s) ops = (c', ok)"
    by (cases "bulk_write (unique_violation e) (collection s) ops")
  from bulk_write_take[OF bw] obtain k where "k \<le> length ops" "c' = collection s @ take k ops"
    "\<forall>j<k. \<not> unique_violation e (collection s @ take j ops) (ops ! j)"
    by blast
  moreover have "collection (execute_bulk_operations e ops s) = c'"
    using False bw by (simp add: execute_bulk_operations_def Let_def log_info_def log_error_def)
  ultimately show ?thesis by blast
qed

lemma fetch_data_collection: "fetch_data e p s = (r, s1) \<Longrightarrow> collection s1 = collection s"
  by (auto simp: fetch_data_def Let_def log_error_def split: option.splits if_splits)

lemma fetch_data_served:
  "fetch_data e p s = (Some data, s1) \<Longrightarrow>
     \<exists>m r. upstream e m p = Some r \<and> status r = 200 \<and> body r = data"
  by (auto simp: fetch_data_def Let_def split: option.splits if_splits)

text \<open>
  A property of the collection that every accepted prefix of a prepared page preserves
  is preserved by the fetch loop.
\<close>

lemma fetch_loop_invariant:
  assumes run: "fetch_loop fuel e i n lo hi tot s = Some s'"
    and init: "P (collection s)"
    and step: "\<And>c m p r ws k. P c \<Longrightarrow> upstream e m p = Some r \<Longrightarrow> status r = 200 \<Longrightarrow>
                 vulnerabilities (body r) = Some ws \<Longrightarrow>
                 \<forall>j<k. \<not> unique_violation e (c @ take j (prepare_bulk_operations c ws))
                          (prepare_bulk_operations c ws ! j) \<Longrightarrow>
                 P (c @ take k (prepare_bulk_operations c ws))"
  shows "P (collection s')"
  using run init
proof (induction fuel arbitrary: i tot s)
  case 0
  then show ?case by simp
next
  case (Suc fuel)
  show ?case
  proof (cases "case tot of None \<Rightarrow> True | Some t \<Rightarrow> i < t")
    case False
    with Suc.prems show ?thesis by (auto split: option.splits)
  next
    case True
    obtain r s1 where fd: "fetch_data e (page_params i n lo hi) s = (r, s1)"
      by (cases "fetch_data e (page_params i n lo hi) s")
    note c1 = fetch_data_collection[OF fd]
    show ?thesis
    proof (cases r)
      case None
      with Suc.prems True fd have "s' = s1" by simp
      with c1 Suc.prems(2) show ?thesis by simp
    next
      case (Some data)
      show ?thesis
      proof (cases "truthy_response data \<and> vulnerabilities data \<noteq> None
                      \<and> vulnerabilities data \<noteq> Some []")
        case False
        with Suc.prems(1) True fd Some
        have "s' = s1 \<or> s' = log_info ''No vulnerabilities found.'' s1"
          by (auto simp: Let_def split: option.splits if_splits)
        with c1 Suc.prems(2) show ?thesis by (auto simp: log_info_def)
      next
        case t: True
        then obtain ws where v: "vulnerabilities data = Some ws" "ws \<noteq> []" by auto
        define ops where "ops = prepare_bulk_operations (collection s1) ws"
        define s1a where "s1a = log_entries (prepare_log (collection s1) ws) s1"
        define s2 where "s2 = log_info ''Processed data from index''
           (if ops \<noteq> [] then execute_bulk_operations e ops s1a else s1a)"
        define t' where "t' = (case totalResults data of None \<Rightarrow> 0 | Some t \<Rightarrow> t)"
        from Suc.prems(1) True fd Some t v
        have l: "fetch_loop fuel e (i + n) n lo hi (Some t') s2 = Some s'"
          by (auto simp: Let_def ops_def s1a_def s2_def t'_def split: if_splits)
        have c2: "\<exists>k. collection s2 = collection s1 @ take k ops
                    \<and> (\<forall>j<k. \<not> unique_violation e (collection s1 @ take j ops) (ops ! j))"
        proof (cases "ops = []")
          case True
          then have "collection s2 = collection s1 @ take 0 ops"
            by (simp add: s2_def s1a_def log_info_def log_entries_def)
          then show ?thesis by blast
        next
          case False
          have "collection s1a = collection s1"
            by (simp add: s1a_def log_entries_def)
          with False execute_collection[of ops e s1a] show ?thesis
            by (auto simp: s2_def log_info_def)
        qed
        from fetch_data_served[OF fd[unfolded Some]] obtain m r' where
          "upstream e m (page_params i n lo hi) = Some r'" "status r' = 200" "body r' = data"
          by blast
        with step[OF Suc.prems(2), of m "page_params i n lo hi" r' ws] v(1) c2
        have "P (collection s2)" unfolding ops_def c1 by auto
        from Suc.IH[OF l this] show ?thesis .
      qed
    qed
  qed
qed

text \<open>Through the loop the collection only grows at its end: no record is changed or removed.\<close>

lemma fetch_loop_append_only:
  assumes "fetch_loop fuel e i n lo hi tot s = Some s'"
  shows "\<exists>added. collection s' = collection s @ added"
  by (rule fetch_loop_invariant[OF assms, where P = "\<lambda>c. \<exists>added. c = collection s @ added"])
     auto

text \<open>When no page of the feed repeats an id, the ids stay distinct, whatever the indexes.\<close>

lemma fetch_loop_distinct_ids:
  assumes run: "fetch_loop fuel e i n lo hi tot s = Some s'"
    and init: "distinct (stored_ids (collection s))"
    and pages: "\<And>m p r ws. upstream e m p = Some r \<Longrightarrow> vulnerabilities (body r) = Some ws \<Longrightarrow>
                  distinct (page_ids ws)"
  shows "distinct (stored_ids (collection s'))"
proof (rule fetch_loop_invariant[OF run, where P = "\<lambda>c. distinct (stored_ids c)"])
  show "distinct (stored_ids (collection s))" by (rule init)
next
  fix c m p r ws k
  assume c: "distinct (stored_ids c)" and u: "upstream e m p = Some r"
    and v: "vulnerabilities (body r) = Some ws"
  from prepare_bulk_operations_ids[OF pages[OF u v], of c]
  have d: "distinct (stored_ids (prepare_bulk_operations c ws))"
    and f: "set (stored_ids (prepare_bulk_operations c ws)) \<inter> set (stored_ids c) = {}"
    by auto
  from stored_ids_take[OF d, of k] f c
  show "distinct (stored_ids (c @ take k (prepare_bulk_operations c ws)))"
    by auto
qed

text \<open>
  When the collection has a unique index on \<^verbatim>\<open>id\<close>, the store itself keeps the ids
  distinct, on every feed.
\<close>

lemma accepted_prefix_distinct:
  assumes "distinct (map (\<lambda>d. map_of d ''id'') c)"
    and "\<forall>j<k. \<not> unique_index_on_id (c @ take j ops) (ops ! j)"
  shows "distinct (map (\<lambda>d. map_of d ''id'') (c @ take k ops))"
  using assms(2)
proof (induction k)
  case 0
  then show ?case using assms(1) by simp
next
  case (Suc k)
  then have ih: "distinct (map (\<lambda>d. map_of d ''id'') (c @ take k ops))" by simp
  show ?case
  proof (cases "k < length ops")
    case False
    then show ?thesis using ih by simp
  next
    case True
    from Suc.prems have "\<not> unique_index_on_id (c @ take k ops) (ops ! k)" by simp
    then have "map_of (ops ! k) ''id'' \<notin> set (map (\<lambda>d. map_of d ''id'') (c @ take k ops))"
      by (simp add: unique_index_on_id_def)
    with ih True show ?thesis by (simp add: take_Suc_conv_app_nth)
  qed
qed

lemma fetch_loop_unique_index:
  assumes run: "fetch_loop fuel e i n lo hi tot s = Some s'"
    and init: "distinct (map (\<lambda>d. map_of d ''id'') (collection s))"
    and index: "unique_violation e = unique_index_on_id"
  shows "distinct (map (\<lambda>d. map_of d ''id'') (collection s'))"
proof (rule fetch_loop_invariant[OF run,
        where P = "\<lambda>c. distinct (map (\<lambda>d. map_of d ''id'') c)"])
  show "distinct (map (\<lambda>d. map_of d ''id'') (collection s))" by (rule init)
next
  fix c m p r ws k
  assume "distinct (map (\<lambda>d. map_of d ''id'') c)"
    and "\<forall>j<k. \<not> unique_violation e (c @ take j (prepare_bulk_operations c ws))
                  (prepare_bulk_operations c ws ! j)"
  then show "distinct (map (\<lambda>d. map_of d ''id'') (c @ take k (prepare_bulk_operations c ws)))"
    unfolding index by (rule accepted_prefix_distinct)
qed

lemma update_collection: "collection (update_last_sync_timestamp e s) = collection s"
  by (auto simp: update_last_sync_timestamp_def log_info_def split: prod.splits option.splits
        dest: fetch_data_collection)

lemma synchronize_collection:
  assumes "synchronize_cve_data fuel e a b s = Some (r, s')"
  shows "collection s' = collection s
       \<or> (\<exists>lo hi s1. fetch_loop fuel e 0 2000 lo hi None
                        (log_info ''Starting CVE data synchronization.'' s) = Some s1
             \<and> collection s' = collection s1)"
proof (cases "validate_window e a b")
  case Pass
  from assms[unfolded synchronize_pass[OF Pass]] obtain lo hi s1 where
    "fetch_and_store_cve_data fuel e 0 2000 lo hi
       (log_info ''Starting CVE data synchronization.'' s) = Some s1"
    "s' = update_last_sync_timestamp e s1"
    by (cases "truthy_str (last_sync_timestamp s) \<and> \<not> (truthy_str a \<and> truthy_str b)") auto
  then show ?thesis
    by (auto simp: fetch_and_store_cve_data_def update_collection)
next
  case (Reject m)
  with assms show ?thesis
    by (auto simp: synchronize_cve_data_def log_info_def log_error_def)
next
  case (Raise x)
  with assms show ?thesis
    by (auto simp: synchronize_cve_data_def log_info_def)
qed

text \<open>
  A run of \<^verbatim>\<open>synchronize_cve_data\<close> on a feed none of whose pages repeats an id: the
  stored ids stay distinct, and the records stored before are all still there, unchanged
  and in their order. Duplicates across pages and across runs are covered (the
  collection is arbitrary); only a page that repeats an id is not.
\<close>

lemma synchronize_distinct_ids:
  assumes run: "synchronize_cve_data fuel e a b s = Some (r, s')"
    and init: "distinct (stored_ids (collection s))"
    and pages: "\<And>m p r ws. upstream e m p = Some r \<Longrightarrow> vulnerabilities (body r) = Some ws \<Longrightarrow>
                  distinct (page_ids ws)"
  shows "distinct (stored_ids (collection s')) \<and> (\<exists>added. collection s' = collection s @ added)"
proof -
  from synchronize_collection[OF run] show ?thesis
  proof (elim disjE exE conjE)
    assume "collection s' = collection s"
    with init show ?thesis by simp
  next
    fix lo hi s1
    assume l: "fetch_loop fuel e 0 2000 lo hi None
                 (log_info ''Starting CVE data synchronization.'' s) = Some s1"
      and c: "collection s' = collection s1"
    from fetch_loop_distinct_ids[OF l _ pages] init fetch_loop_append_only[OF l]
    show ?thesis by (auto simp: c log_info_def)
  qed
qed

section \<open>Runs on the example feed\<close>

text \<open>
  A first run in a fresh process, a second run after it, and a request to the update
  view after the first run.
\<close>

lemma first_run:
  "synchronize_cve_data 2 example_env None None (process_start []) = Some (Inr (), example_synced)"
  by (simp add: sync_defs example_defs example_synced_def numeral_2_eq_2)

lemma second_run:
  "synchronize_cve_data 2 example_env None None example_synced = Some (Inr (), example_resynced)"
  by (simp add: sync_defs example_defs example_synced_def example_resynced_def numeral_2_eq_2)

lemma view_run:
  "UpdateCveDataView_get 2 example_env example_synced
     = Some (JsonResponse 200 ''success'' ''CVE data updated successfully.'', example_after_view)"
  by (simp add: UpdateCveDataView_get_def sync_defs example_defs example_synced_def
        example_after_view_def numeral_2_eq_2)

text \<open>
  C1 at a page that repeats an id. The collection has no unique index on \<^verbatim>\<open>id\<close>; the feed
  serves one page with two records of id \<^verbatim>\<open>CVE-2024-0001\<close>. Both pass \<^verbatim>\<open>is_valid_cve\<close>,
  which looks at the collection as it was before the page, and one \<^verbatim>\<open>bulk_write\<close> inserts
  both: after the run the store holds two records with that id.
\<close>

theorem synchronize_stores_duplicate_id:
  "map_option (collection \<circ> snd)
     (synchronize_cve_data 2 example_env None None (process_start []))
     = Some [[(''id'', JStr ''CVE-2024-0001''), (''published'', JStr ''2024-01-05''),
              (''lastModified'', JStr ''2024-05-20'')],
             [(''id'', JStr ''CVE-2024-0001''), (''published'', JStr ''2024-01-05''),
              (''lastModified'', JStr ''2024-05-21'')]]
   \<and> vulnerabilities example_page = Some [Some record_1, Some record_1_again]
   \<and> map_of record_1 ''id'' = Some (JStr ''CVE-2024-0001'')
   \<and> map_of record_1_again ''id'' = Some (JStr ''CVE-2024-0001'')"
  by (simp add: first_run example_synced_def) (simp add: example_defs)

section \<open>The window of a run\<close>

text \<open>
  C3, as the code has it. Take an explicit window whose two dates parse. When both are
  timezone-aware or both are naive, so that end minus start is defined, and the
  difference exceeds 120 days, \<^verbatim>\<open>synchronize_cve_data\<close> logs the error and returns
  normally: the caller gets the ordinary return value and no exception, no request is
  issued, the collection and the watermark are untouched, and the window is not
  clamped. When the difference is 120 days or less the window is not rejected: the run
  is the fetch loop on that window followed by the metadata call, and, when it returns,
  its first request is the page at index 0 with that window. When one date is naive and
  the other aware, the subtraction raises \<^verbatim>\<open>TypeError\<close>, which the \<^verbatim>\<open>except ValueError\<close>
  clause does not catch: the call ends with that exception, again before any request.
\<close>

theorem synchronize_window_check:
  assumes "a \<noteq> []" and "b \<noteq> []"
    and "fromisoformat e (replace_Z a) = Some start_date"
    and "fromisoformat e (replace_Z b) = Some end_date"
  shows "(\<forall>delta. datetime_sub end_date start_date = Inr delta \<and> timedelta_days 120 < delta \<longrightarrow>
            synchronize_cve_data fuel e (Some a) (Some b) s
              = Some (Inr (), s\<lparr>logged := logged s @
                   [LogInfo ''Starting CVE data synchronization.'',
                    LogError ''Date range exceeds the maximum allowable range of 120 days.'']\<rparr>))
       \<and> (\<forall>delta. datetime_sub end_date start_date = Inr delta \<and> delta \<le> timedelta_days 120 \<longrightarrow>
            synchronize_cve_data fuel e (Some a) (Some b) s
              = map_option (\<lambda>s1. (Inr (), update_last_sync_timestamp e s1))
                  (fetch_and_store_cve_data fuel e 0 2000 (Some a) (Some b)
                     (log_info ''Starting CVE data synchronization.'' s))
          \<and> (\<forall>r s'. synchronize_cve_data fuel e (Some a) (Some b) s = Some (r, s') \<longrightarrow>
                (\<exists>rest. requests s' = requests s @ page_params 0 2000 (Some a) (Some b) # rest)))
       \<and> ((\<exists>x. datetime_sub end_date start_date = Inl x)
            = ((\<exists>t u. start_date = Naive t \<and> end_date = Aware u)
               \<or> (\<exists>t u. start_date = Aware t \<and> end_date = Naive u)))
       \<and> (\<forall>x. datetime_sub end_date start_date = Inl x \<longrightarrow>
            synchronize_cve_data fuel e (Some a) (Some b) s
              = Some (Inl TypeError,
                      s\<lparr>logged := logged s @ [LogInfo ''Starting CVE data synchronization.'']\<rparr>))"
proof (intro conjI impI allI; (elim conjE)?)
  fix delta
  assume "datetime_sub end_date start_date = Inr delta" and "timedelta_days 120 < delta"
  with assms show "synchronize_cve_data fuel e (Some a) (Some b) s
              = Some (Inr (), s\<lparr>logged := logged s @
                   [LogInfo ''Starting CVE data synchronization.'',
                    LogError ''Date range exceeds the maximum allowable range of 120 days.'']\<rparr>)"
    by (simp add: synchronize_cve_data_def validate_window_def max_window_def log_info_def
          log_error_def)
next
  fix delta
  assume d: "datetime_sub end_date start_date = Inr delta" "delta \<le> timedelta_days 120"
  with assms have pass: "validate_window e (Some a) (Some b) = Pass"
    by (simp add: validate_window_def max_window_def)
  from synchronize_pass[OF pass, of fuel s] assms(1,2)
  show eq: "synchronize_cve_data fuel e (Some a) (Some b) s
              = map_option (\<lambda>s1. (Inr (), update_last_sync_timestamp e s1))
                  (fetch_and_store_cve_data fuel e 0 2000 (Some a) (Some b)
                     (log_info ''Starting CVE data synchronization.'' s))"
    by simp
  fix r s'
  assume run: "synchronize_cve_data fuel e (Some a) (Some b) s = Some (r, s')"
  from run[unfolded eq] obtain s1 where
    fs: "fetch_and_store_cve_data fuel e 0 2000 (Some a) (Some b)
           (log_info ''Starting CVE data synchronization.'' s) = Some s1"
    and s': "s' = update_last_sync_timestamp e s1" by auto
  from fetch_and_store_requests[OF fs] obtain rest where
    "requests s1 = requests s @ page_params 0 2000 (Some a) (Some b) # rest"
    by (auto simp: log_info_def)
  then show "\<exists>rest. requests s' = requests s @ page_params 0 2000 (Some a) (Some b) # rest"
    by (simp add: s' update_requests)
next
  show "(\<exists>x. datetime_sub end_date start_date = Inl x)
            = ((\<exists>t u. start_date = Naive t \<and> end_date = Aware u)
               \<or> (\<exists>t u. start_date = Aware t \<and> end_date = Naive u))"
    by (cases start_date; cases end_date) simp_all
next
  fix x
  assume x: "datetime_sub end_date start_date = Inl x"
  then have "x = TypeError"
    by (cases start_date; cases end_date) simp_all
  with x assms show "synchronize_cve_data fuel e (Some a) (Some b) s
              = Some (Inl TypeError,
                      s\<lparr>logged := logged s @ [LogInfo ''Starting CVE data synchronization.'']\<rparr>)"
    by (simp add: synchronize_cve_data_def validate_window_def log_info_def)
qed

text \<open>
  C3 as it is stated fails: on a window of 121 days the caller receives the normal
  return, not an error.
\<close>

theorem synchronize_window_check_counterexample:
  "map_option fst (synchronize_cve_data 2 example_env (Some ''2024-01-01T00:00:00Z'')
      (Some ''2024-05-01T00:00:00Z'') (process_start [])) = Some (Inr ())"
  by (simp add: sync_defs example_defs)

text \<open>
  The amended C3 on a window of 121 days, on one of exactly 120 days, and on a window
  with a naive start and an aware end.
\<close>

theorem synchronize_window_check_witness:
  "synchronize_cve_data 2 example_env (Some ''2024-01-01T00:00:00Z'')
      (Some ''2024-05-01T00:00:00Z'') (process_start [])
     = Some (Inr (), (process_start [])\<lparr>logged := logged (process_start []) @
          [LogInfo ''Starting CVE data synchronization.'',
           LogError ''Date range exceeds the maximum allowable range of 120 days.'']\<rparr>)
   \<and> synchronize_cve_data 2 example_env (Some ''2024-01-01T00:00:00Z'')
        (Some ''2024-04-30T00:00:00Z'') (process_start [])
     = map_option (\<lambda>s1. (Inr (), update_last_sync_timestamp example_env s1))
         (fetch_and_store_cve_data 2 example_env 0 2000 (Some ''2024-01-01T00:00:00Z'')
            (Some ''2024-04-30T00:00:00Z'')
            (log_info ''Starting CVE data synchronization.'' (process_start [])))
   \<and> map_option (requests \<circ> snd)
        (synchronize_cve_data 2 example_env (Some ''2024-01-01T00:00:00Z'')
           (Some ''2024-04-30T00:00:00Z'') (process_start []))
     = Some [page_params 0 2000 (Some ''2024-01-01T00:00:00Z'')
               (Some ''2024-04-30T00:00:00Z''), no_params]
   \<and> synchronize_cve_data 2 example_env (Some ''2024-01-01T00:00:00'')
        (Some ''2024-05-01T00:00:00Z'') (process_start [])
     = Some (Inl TypeError, (process_start [])\<lparr>logged := logged (process_start []) @
          [LogInfo ''Starting CVE data synchronization.'']\<rparr>)"
proof -
  have a: "fromisoformat example_env (replace_Z ''2024-01-01T00:00:00Z'')
             = Some (Aware 63839664000000000)"
    and b: "fromisoformat example_env (replace_Z ''2024-05-01T00:00:00Z'')
             = Some (Aware 63850118400000000)"
    and c: "fromisoformat example_env (replace_Z ''2024-04-30T00:00:00Z'')
             = Some (Aware 63850032000000000)"
    and n: "fromisoformat example_env (replace_Z ''2024-01-01T00:00:00'')
             = Some (Naive 63839664000000000)"
    by (simp_all add: example_defs replace_Z_def)
  have d121: "datetime_sub (Aware 63850118400000000) (Aware 63839664000000000)
                = Inr 10454400000000"
    and d120: "datetime_sub (Aware 63850032000000000) (Aware 63839664000000000)
                = Inr 10368000000000"
    and mixed: "datetime_sub (Aware 63850118400000000) (Naive 63839664000000000)
                = Inl TypeError"
    by simp_all
  have too_large: "timedelta_days 120 < 10454400000000"
    and allowed: "10368000000000 \<le> timedelta_days 120"
    by (simp_all add: timedelta_days_def microseconds_per_day_def)
  have ne: "''2024-01-01T00:00:00Z'' \<noteq> []" "''2024-05-01T00:00:00Z'' \<noteq> []"
    "''2024-04-30T00:00:00Z'' \<noteq> []" "''2024-01-01T00:00:00'' \<noteq> []" by simp_all
  note rejected = synchronize_window_check[OF ne(1) ne(2) a b, of 2 "process_start []"]
  note passed = synchronize_window_check[OF ne(1) ne(3) a c, of 2 "process_start []"]
  note raised = synchronize_window_check[OF ne(4) ne(2) n b, of 2 "process_start []"]
  have "map_option (requests \<circ> snd)
        (synchronize_cve_data 2 example_env (Some ''2024-01-01T00:00:00Z'')
           (Some ''2024-04-30T00:00:00Z'') (process_start []))
     = Some [page_params 0 2000 (Some ''2024-01-01T00:00:00Z'')
               (Some ''2024-04-30T00:00:00Z''), no_params]"
    by (simp add: sync_defs example_defs numeral_2_eq_2)
  note reqs = this
  note r1 = rejected[THEN conjunct1, rule_format, OF conjI[OF d121 too_large]]
  note r2 = passed[THEN conjunct2, THEN conjunct1, rule_format, OF conjI[OF d120 allowed],
                   THEN conjunct1]
  note r3 = raised[THEN conjunct2, THEN conjunct2, THEN conjunct2, rule_format, OF mixed]
  from r1 r2 reqs r3 show ?thesis by blast
qed

text \<open>
  C7. A call of \<^verbatim>\<open>synchronize_cve_data\<close> with no window: when there is a watermark \<open>w\<close>
  (a non-empty timestamp), the run is the fetch loop on the window from \<open>w\<close> to the
  current time, and every page request of a run that returns carries
  \<^verbatim>\<open>lastModStartDate = w\<close> and \<^verbatim>\<open>lastModEndDate = now\<close>; when there is none, the run is the
  fetch loop with no window, and no page request carries one. In both cases the page
  requests start at index 0 and are followed by the one metadata call. A fresh
  process has no watermark, so its first such call is a full resynchronisation.
\<close>

theorem synchronize_no_window:
  "(\<forall>w. last_sync_timestamp s = Some w \<and> w \<noteq> [] \<and> isoformat e (now e) \<noteq> [] \<longrightarrow>
       synchronize_cve_data fuel e None None s
         = map_option (\<lambda>s1. (Inr (), update_last_sync_timestamp e s1))
             (fetch_and_store_cve_data fuel e 0 2000 (Some w) (Some (isoformat e (now e)))
                (log_info ''Starting CVE data synchronization.'' s))
     \<and> (\<forall>r s'. synchronize_cve_data fuel e None None s = Some (r, s') \<longrightarrow>
          (\<exists>pages. pages \<noteq> [] \<and> requests s' = requests s @ pages @ [no_params]
             \<and> startIndex (hd pages) = Some 0
             \<and> (\<forall>p\<in>set pages. resultsPerPage p = Some 2000
                   \<and> lastModStartDate p = Some w
                   \<and> lastModEndDate p = Some (isoformat e (now e))))))
   \<and> (\<not> truthy_str (last_sync_timestamp s) \<longrightarrow>
       synchronize_cve_data fuel e None None s
         = map_option (\<lambda>s1. (Inr (), update_last_sync_timestamp e s1))
             (fetch_and_store_cve_data fuel e 0 2000 None None
                (log_info ''Starting CVE data synchronization.'' s))
     \<and> (\<forall>r s'. synchronize_cve_data fuel e None None s = Some (r, s') \<longrightarrow>
          (\<exists>pages. pages \<noteq> [] \<and> requests s' = requests s @ pages @ [no_params]
             \<and> startIndex (hd pages) = Some 0
             \<and> (\<forall>p\<in>set pages. resultsPerPage p = Some 2000
                   \<and> lastModStartDate p = None \<and> lastModEndDate p = None))))
   \<and> last_sync_timestamp (process_start c) = None"
proof (intro conjI allI impI; (elim conjE)?)
  have pass: "validate_window e None None = Pass"
    by (simp add: validate_window_def)
  {
    fix w
    assume w: "last_sync_timestamp s = Some w" "w \<noteq> []" "isoformat e (now e) \<noteq> []"
    show "synchronize_cve_data fuel e None None s
         = map_option (\<lambda>s1. (Inr (), update_last_sync_timestamp e s1))
             (fetch_and_store_cve_data fuel e 0 2000 (Some w) (Some (isoformat e (now e)))
                (log_info ''Starting CVE data synchronization.'' s))"
      using synchronize_pass[OF pass, of fuel s] w by simp
    fix r s'
    assume run: "synchronize_cve_data fuel e None None s = Some (r, s')"
    show "\<exists>pages. pages \<noteq> [] \<and> requests s' = requests s @ pages @ [no_params]
             \<and> startIndex (hd pages) = Some 0
             \<and> (\<forall>p\<in>set pages. resultsPerPage p = Some 2000
                   \<and> lastModStartDate p = Some w
                   \<and> lastModEndDate p = Some (isoformat e (now e)))"
      by (rule synchronize_requests_fields[OF run pass, of "Some w" "Some (isoformat e (now e))"])
         (simp_all add: w)
  }
  {
    assume nw: "\<not> truthy_str (last_sync_timestamp s)"
    show "synchronize_cve_data fuel e None None s
         = map_option (\<lambda>s1. (Inr (), update_last_sync_timestamp e s1))
             (fetch_and_store_cve_data fuel e 0 2000 None None
                (log_info ''Starting CVE data synchronization.'' s))"
      using synchronize_pass[OF pass, of fuel s] nw by simp
    fix r s'
    assume run: "synchronize_cve_data fuel e None None s = Some (r, s')"
    show "\<exists>pages. pages \<noteq> [] \<and> requests s' = requests s @ pages @ [no_params]
             \<and> startIndex (hd pages) = Some 0
             \<and> (\<forall>p\<in>set pages. resultsPerPage p = Some 2000
                   \<and> lastModStartDate p = None \<and> lastModEndDate p = None)"
      by (rule synchronize_requests_fields[OF run pass, of None None]) (simp_all add: nw)
  }
  show "last_sync_timestamp (process_start c) = None"
    by (simp add: process_start_def)
qed

text \<open>
  C7 on the example feed: a full first run, then an incremental second run.
\<close>

theorem synchronize_no_window_witness:
  "synchronize_cve_data 2 example_env None None (process_start [])
     = map_option (\<lambda>s1. (Inr (), update_last_sync_timestamp example_env s1))
         (fetch_and_store_cve_data 2 example_env 0 2000 None None
            (log_info ''Starting CVE data synchronization.'' (process_start [])))
   \<and> synchronize_cve_data 2 example_env None None (process_start [])
     = Some (Inr (), example_synced)
   \<and> requests example_synced = [page_params 0 2000 None None, no_params]
   \<and> last_sync_timestamp example_synced = Some ''2024-05-24T12:00:00.000''
   \<and> synchronize_cve_data 2 example_env None None example_synced
     = map_option (\<lambda>s1. (Inr (), update_last_sync_timestamp example_env s1))
         (fetch_and_store_cve_data 2 example_env 0 2000 (Some ''2024-05-24T12:00:00.000'')
            (Some ''2024-05-25T00:00:00+00:00'')
            (log_info ''Starting CVE data synchronization.'' example_synced))
   \<and> synchronize_cve_data 2 example_env None None example_synced
     = Some (Inr (), example_resynced)
   \<and> requests example_resynced
     = requests example_synced @
         [page_params 0 2000 (Some ''2024-05-24T12:00:00.000'')
            (Some ''2024-05-25T00:00:00+00:00''), no_params]"
proof -
  have fresh: "\<not> truthy_str (last_sync_timestamp (process_start []))"
    by (simp add: process_start_def)
  have mark: "last_sync_timestamp example_synced = Some ''2024-05-24T12:00:00.000''"
    by (simp add: example_synced_def)
  have clock: "isoformat example_env (now example_env) = ''2024-05-25T00:00:00+00:00''"
    by (simp add: example_defs)
  have reqs: "requests example_synced = [page_params 0 2000 None None, no_params]"
    "requests example_resynced
     = requests example_synced @
         [page_params 0 2000 (Some ''2024-05-24T12:00:00.000'')
            (Some ''2024-05-25T00:00:00+00:00''), no_params]"
    by (simp_all add: example_synced_def example_resynced_def page_params_def)
  from synchronize_no_window[of "process_start []" example_env 2 "[]"] fresh
  have full: "synchronize_cve_data 2 example_env None None (process_start [])
     = map_option (\<lambda>s1. (Inr (), update_last_sync_timestamp example_env s1))
         (fetch_and_store_cve_data 2 example_env 0 2000 None None
            (log_info ''Starting CVE data synchronization.'' (process_start [])))"
    by blast
  from synchronize_no_window[of example_synced example_env 2 "[]"] mark clock
  have incremental: "synchronize_cve_data 2 example_env None None example_synced
     = map_option (\<lambda>s1. (Inr (), update_last_sync_timestamp example_env s1))
         (fetch_and_store_cve_data 2 example_env 0 2000 (Some ''2024-05-24T12:00:00.000'')
            (Some ''2024-05-25T00:00:00+00:00'')
            (log_info ''Starting CVE data synchronization.'' example_synced))"
    by simp
  from full incremental first_run second_run mark reqs show ?thesis by blast
qed

text \<open>
  C10. When the two dates are not both supplied (one is \<^verbatim>\<open>None\<close> or empty), the
  validation block is not entered, whatever the date parser would say; the call
  behaves exactly as the call with no date at all; and every page request of a run that
  returns carries the window from the watermark to the current time when there is a
  watermark, and no window otherwise. The lone date reaches no request.
\<close>

theorem synchronize_lone_date:
  assumes "\<not> (truthy_str a \<and> truthy_str b)"
  shows "validate_window e a b = Pass
       \<and> synchronize_cve_data fuel e a b s = synchronize_cve_data fuel e None None s
       \<and> (\<forall>r s'. synchronize_cve_data fuel e a b s = Some (r, s') \<longrightarrow>
            (\<exists>pages. pages \<noteq> [] \<and> requests s' = requests s @ pages @ [no_params]
               \<and> (\<forall>p\<in>set pages.
                     lastModStartDate p
                       = (if truthy_str (last_sync_timestamp s) \<and> isoformat e (now e) \<noteq> []
                          then last_sync_timestamp s else None)
                   \<and> lastModEndDate p
                       = (if truthy_str (last_sync_timestamp s) \<and> isoformat e (now e) \<noteq> []
                          then Some (isoformat e (now e)) else None))))"
proof (intro conjI allI impI)
  show pass: "validate_window e a b = Pass"
    using assms by (rule validate_window_not_both)
  have pass0: "validate_window e None None = Pass"
    by (simp add: validate_window_def)
  have "fetch_and_store_cve_data fuel e 0 2000 a b s0
          = fetch_and_store_cve_data fuel e 0 2000 None None s0" for s0
    unfolding fetch_and_store_cve_data_def using assms by (rule fetch_loop_not_both)
  then show "synchronize_cve_data fuel e a b s = synchronize_cve_data fuel e None None s"
    unfolding synchronize_pass[OF pass] synchronize_pass[OF pass0] using assms by simp
  fix r s'
  assume run: "synchronize_cve_data fuel e a b s = Some (r, s')"
  define lo where "lo = (if truthy_str (last_sync_timestamp s) \<and> \<not> (truthy_str a \<and> truthy_str b)
                   then last_sync_timestamp s else a)"
  define hi where "hi = (if truthy_str (last_sync_timestamp s) \<and> \<not> (truthy_str a \<and> truthy_str b)
                   then Some (isoformat e (now e)) else b)"
  have w1: "(if truthy_str (last_sync_timestamp s) \<and> isoformat e (now e) \<noteq> []
             then last_sync_timestamp s else None)
            = (if truthy_str lo \<and> truthy_str hi then lo else None)"
    and w2: "(if truthy_str (last_sync_timestamp s) \<and> isoformat e (now e) \<noteq> []
             then Some (isoformat e (now e)) else None)
            = (if truthy_str lo \<and> truthy_str hi then hi else None)"
    using assms by (auto simp: lo_def hi_def)
  from synchronize_requests_fields[OF run pass lo_def hi_def w1 w2]
  show "\<exists>pages. pages \<noteq> [] \<and> requests s' = requests s @ pages @ [no_params]
               \<and> (\<forall>p\<in>set pages.
                     lastModStartDate p
                       = (if truthy_str (last_sync_timestamp s) \<and> isoformat e (now e) \<noteq> []
                          then last_sync_timestamp s else None)
                   \<and> lastModEndDate p
                       = (if truthy_str (last_sync_timestamp s) \<and> isoformat e (now e) \<noteq> []
                          then Some (isoformat e (now e)) else None))"
    by blast
qed

text \<open>
  C10 on the example feed: a lone start date in a fresh process, with a parser that
  rejects everything, and a lone malformed end date after a first run.
\<close>

theorem synchronize_lone_date_witness:
  "synchronize_cve_data 2 (example_env\<lparr>fromisoformat := (\<lambda>x. None)\<rparr>)
      (Some ''2024-01-01T00:00:00Z'') None (process_start [])
     = synchronize_cve_data 2 (example_env\<lparr>fromisoformat := (\<lambda>x. None)\<rparr>)
         None None (process_start [])
   \<and> synchronize_cve_data 2 example_env (Some ''2024-01-01T00:00:00Z'') None (process_start [])
     = Some (Inr (), example_synced)
   \<and> requests example_synced = [page_params 0 2000 None None, no_params]
   \<and> synchronize_cve_data 2 example_env None (Some ''not a date'') example_synced
     = Some (Inr (), example_resynced)
   \<and> requests example_resynced
     = requests example_synced @
         [page_params 0 2000 (Some ''2024-05-24T12:00:00.000'')
            (Some ''2024-05-25T00:00:00+00:00''), no_params]"
proof -
  have start_only: "\<not> (truthy_str (Some ''2024-01-01T00:00:00Z'') \<and> truthy_str None)"
    and end_only: "\<not> (truthy_str None \<and> truthy_str (Some ''not a date''))"
    by simp_all
  note t1 = synchronize_lone_date[OF start_only,
              of "example_env\<lparr>fromisoformat := (\<lambda>x. None)\<rparr>" 2 "process_start []"]
  note t2 = synchronize_lone_date[OF start_only, of example_env 2 "process_start []"]
  note t3 = synchronize_lone_date[OF end_only, of example_env 2 example_synced]
  have reqs: "requests example_synced = [page_params 0 2000 None None, no_params]"
    "requests example_resynced
     = requests example_synced @
         [page_params 0 2000 (Some ''2024-05-24T12:00:00.000'')
            (Some ''2024-05-25T00:00:00+00:00''), no_params]"
    by (simp_all add: example_synced_def example_resynced_def page_params_def)
  from t1 t2 t3 first_run second_run reqs show ?thesis by metis
qed

section \<open>What the update view does\<close>

text \<open>
  C6, as the code has it. \<^verbatim>\<open>UpdateCveDataView.get\<close> calls \<^verbatim>\<open>fetch_and_store_cve_data\<close>
  directly, with the defaults: start index 0, page size 2000, no window. It does not go
  through \<^verbatim>\<open>synchronize_cve_data\<close>: the watermark is neither read nor written, every
  request is a page request without a window, and there is no metadata call.
\<close>

theorem update_view_fetches_directly:
  "UpdateCveDataView_get fuel e s
     = map_option (Pair (JsonResponse 200 ''success'' ''CVE data updated successfully.''))
         (fetch_and_store_cve_data fuel e 0 2000 None None s)
   \<and> (\<forall>resp s'. UpdateCveDataView_get fuel e s = Some (resp, s') \<longrightarrow>
         last_sync_timestamp s' = last_sync_timestamp s
       \<and> (\<exists>pages. pages \<noteq> [] \<and> requests s' = requests s @ pages
            \<and> startIndex (hd pages) = Some 0
            \<and> (\<forall>p\<in>set pages. resultsPerPage p = Some 2000
                  \<and> lastModStartDate p = None \<and> lastModEndDate p = None)))"
proof (intro conjI allI impI)
  show eq: "UpdateCveDataView_get fuel e s
     = map_option (Pair (JsonResponse 200 ''success'' ''CVE data updated successfully.''))
         (fetch_and_store_cve_data fuel e 0 2000 None None s)"
    by (simp add: UpdateCveDataView_get_def split: option.splits)
  fix resp s'
  assume run: "UpdateCveDataView_get fuel e s = Some (resp, s')"
  from run[unfolded eq] have fs: "fetch_and_store_cve_data fuel e 0 2000 None None s = Some s'"
    by auto
  from fetch_and_store_requests[OF fs] obtain rest where
    w: "last_sync_timestamp s' = last_sync_timestamp s"
    and r: "requests s' = requests s @ page_params 0 2000 None None # rest"
    and all: "\<forall>p\<in>set rest. \<exists>j. p = page_params j 2000 None None" by blast
  show "last_sync_timestamp s' = last_sync_timestamp s" by (rule w)
  have "resultsPerPage p = Some 2000 \<and> lastModStartDate p = None \<and> lastModEndDate p = None"
    if "p \<in> set (page_params 0 2000 None None # rest)" for p
  proof -
    from all that obtain j where "p = page_params j 2000 None None" by auto
    then show ?thesis by (simp add: page_params_window)
  qed
  with r show "\<exists>pages. pages \<noteq> [] \<and> requests s' = requests s @ pages
            \<and> startIndex (hd pages) = Some 0
            \<and> (\<forall>p\<in>set pages. resultsPerPage p = Some 2000
                  \<and> lastModStartDate p = None \<and> lastModEndDate p = None)"
    by (intro exI[of _ "page_params 0 2000 None None # rest"]) (simp add: page_params_window)
qed

text \<open>
  C6 as it is stated fails. In a fresh process the view leaves the watermark unset where
  \<^verbatim>\<open>synchronize_cve_data()\<close> sets it; after a first run the view fetches with no window
  where \<^verbatim>\<open>synchronize_cve_data()\<close> fetches the window since the watermark.
\<close>

theorem update_view_counterexample:
  "map_option (last_sync_timestamp \<circ> snd)
     (UpdateCveDataView_get 2 example_env (process_start [])) = Some None
   \<and> map_option (last_sync_timestamp \<circ> snd)
       (synchronize_cve_data 2 example_env None None (process_start []))
     = Some (Some ''2024-05-24T12:00:00.000'')
   \<and> map_option (requests \<circ> snd) (UpdateCveDataView_get 2 example_env example_synced)
     = Some (requests example_synced @ [page_params 0 2000 None None])
   \<and> map_option (requests \<circ> snd) (synchronize_cve_data 2 example_env None None example_synced)
     = Some (requests example_synced @
         [page_params 0 2000 (Some ''2024-05-24T12:00:00.000'')
            (Some ''2024-05-25T00:00:00+00:00''), no_params])"
proof -
  have "map_option (last_sync_timestamp \<circ> snd)
     (UpdateCveDataView_get 2 example_env (process_start [])) = Some None"
    by (simp add: UpdateCveDataView_get_def sync_defs example_defs numeral_2_eq_2)
  then show ?thesis
    by (simp add: first_run second_run view_run)
       (simp add: example_synced_def example_resynced_def example_after_view_def page_params_def)
qed

text \<open>
  The amended C6 on a request that follows a first run.
\<close>

theorem update_view_fetches_directly_witness:
  "UpdateCveDataView_get 2 example_env example_synced
     = Some (JsonResponse 200 ''success'' ''CVE data updated successfully.'', example_after_view)
   \<and> fetch_and_store_cve_data 2 example_env 0 2000 None None example_synced
     = Some example_after_view
   \<and> last_sync_timestamp example_after_view = last_sync_timestamp example_synced
   \<and> requests example_after_view = requests example_synced @ [page_params 0 2000 None None]"
proof -
  note t = update_view_fetches_directly[of 2 example_env example_synced]
  from t have eq: "UpdateCveDataView_get 2 example_env example_synced
     = map_option (Pair (JsonResponse 200 ''success'' ''CVE data updated successfully.''))
         (fetch_and_store_cve_data 2 example_env 0 2000 None None example_synced)"
    by (rule conjunct1)
  from view_run[unfolded eq]
  have "fetch_and_store_cve_data 2 example_env 0 2000 None None example_synced
     = Some example_after_view"
    by auto
  moreover from t view_run
  have "last_sync_timestamp example_after_view = last_sync_timestamp example_synced"
    by blast
  moreover have "requests example_after_view
      = requests example_synced @ [page_params 0 2000 None None]"
    by (simp add: example_after_view_def)
  ultimately show ?thesis using view_run by simp
qed

section \<open>Results of the query service\<close>

lemma fetch_filtered_result:
  assumes "build_query e cve_id base_score last_modified_days = Inr q"
  shows "fetch_filtered_cve_data e cve_id base_score last_modified_days s
           = (if find_fails e
              then (Inr [], s\<lparr>logged := logged s @
                      [LogInfo ''Query'', LogError ''Error fetching filtered CVE data'']\<rparr>)
              else (Inr (filter (matches q) (collection s)),
                    s\<lparr>logged := logged s @ [LogInfo ''Query'']\<rparr>))"
  using assms by (simp add: fetch_filtered_cve_data_def Let_def log_info_def log_error_def)

text \<open>
  C9. Once the query is built (the conversions of the arguments are outside the
  \<^verbatim>\<open>try\<close>), a failure of the store's \<^verbatim>\<open>find\<close> is logged and the result is the empty
  list, not an exception; and the result is the empty list when no stored record
  matches.
\<close>

theorem fetch_filtered_store_failure:
  assumes "build_query e cve_id base_score last_modified_days = Inr q"
  shows "(find_fails e \<longrightarrow>
            fetch_filtered_cve_data e cve_id base_score last_modified_days s
              = (Inr [], s\<lparr>logged := logged s @
                   [LogInfo ''Query'', LogError ''Error fetching filtered CVE data'']\<rparr>))
       \<and> (\<not> find_fails e \<and> (\<forall>d\<in>set (collection s). \<not> matches q d) \<longrightarrow>
            fetch_filtered_cve_data e cve_id base_score last_modified_days s
              = (Inr [], s\<lparr>logged := logged s @ [LogInfo ''Query'']\<rparr>))"
proof (intro conjI impI)
  assume "find_fails e"
  then show "fetch_filtered_cve_data e cve_id base_score last_modified_days s
              = (Inr [], s\<lparr>logged := logged s @
                   [LogInfo ''Query'', LogError ''Error fetching filtered CVE data'']\<rparr>)"
    by (simp add: fetch_filtered_result[OF assms])
next
  assume a: "\<not> find_fails e \<and> (\<forall>d\<in>set (collection s). \<not> matches q d)"
  then have "filter (matches q) (collection s) = []"
    by (simp add: filter_empty_conv)
  with a show "fetch_filtered_cve_data e cve_id base_score last_modified_days s
              = (Inr [], s\<lparr>logged := logged s @ [LogInfo ''Query'']\<rparr>)"
    by (simp add: fetch_filtered_result[OF assms])
qed

text \<open>
  C9 on a store whose \<^verbatim>\<open>find\<close> raises, and on an id that no record has.
\<close>

theorem fetch_filtered_store_failure_witness:
  "fetch_filtered_cve_data (example_env\<lparr>find_fails := True\<rparr>) None (PStr ''7.5'') PNone
      (process_start [scored_75, scored_0])
     = (Inr [], (process_start [scored_75, scored_0])\<lparr>logged :=
          logged (process_start [scored_75, scored_0]) @
            [LogInfo ''Query'', LogError ''Error fetching filtered CVE data'']\<rparr>)
   \<and> fetch_filtered_cve_data example_env (Some ''CVE-1999-0001'') PNone PNone
        (process_start [scored_75, scored_0])
     = (Inr [], (process_start [scored_75, scored_0])\<lparr>logged :=
          logged (process_start [scored_75, scored_0]) @ [LogInfo ''Query'']\<rparr>)"
proof -
  have q1: "build_query (example_env\<lparr>find_fails := True\<rparr>) None (PStr ''7.5'') PNone
              = Inr \<lparr>q_id = None, q_or_baseScore = Some 7.5, q_lastModified = None\<rparr>"
    by (simp add: build_query_def example_defs)
  have q2: "build_query example_env (Some ''CVE-1999-0001'') PNone PNone
              = Inr \<lparr>q_id = Some ''CVE-1999-0001'', q_or_baseScore = None,
                     q_lastModified = None\<rparr>"
    by (simp add: build_query_def)
  have fails: "find_fails (example_env\<lparr>find_fails := True\<rparr>)" by simp
  have works: "\<not> find_fails example_env" by (simp add: example_defs)
  have none: "\<forall>d\<in>set (collection (process_start [scored_75, scored_0])).
                \<not> matches \<lparr>q_id = Some ''CVE-1999-0001'', q_or_baseScore = None,
                            q_lastModified = None\<rparr> d"
    by (simp add: query_defs example_defs)
  from fetch_filtered_store_failure[OF q1, of "process_start [scored_75, scored_0]"] fails
       fetch_filtered_store_failure[OF q2, of "process_start [scored_75, scored_0]"] works none
  show ?thesis by blast
qed

text \<open>
  The base-score filter compares by equality: a record with one version 2 (or version
  3) score \<open>x\<close> matches the query for \<open>r\<close> exactly when \<open>x = r\<close>. A truthy
  \<^verbatim>\<open>base_score\<close> selects the records with an equal score under either version, and the
  filters that are set are combined by conjunction.
\<close>

lemma path_eq_base_score:
  "path_eq v2_path (JNum r)
     [(''metrics'', JObj [(''cvssMetricV2'',
         JArr [JObj [(''cvssData'', JObj [(''baseScore'', JNum x)])]])])] = (x = r)"
  "path_eq v3_path (JNum r)
     [(''metrics'', JObj [(''cvssMetricV3'',
         JArr [JObj [(''cvssData'', JObj [(''baseScore'', JNum x)])]])])] = (x = r)"
  by (simp_all add: path_eq_def v2_path_def v3_path_def get_key_def)

lemma fetch_filtered_truthy_score:
  assumes "truthy_pyval base_score" and "py_float e base_score = Inr r" and "\<not> find_fails e"
  shows "fst (fetch_filtered_cve_data e None base_score PNone s)
           = Inr (filter (\<lambda>d. path_eq v2_path (JNum r) d \<or> path_eq v3_path (JNum r) d)
                    (collection s))"
proof -
  have "build_query e None base_score PNone
          = Inr \<lparr>q_id = None, q_or_baseScore = Some r, q_lastModified = None\<rparr>"
    using assms by (simp add: build_query_def)
  from fetch_filtered_result[OF this] assms(3) show ?thesis
    by (simp add: matches_def[abs_def] match_id_def match_baseScore_def match_lastModified_def)
qed

lemma fetch_filtered_conjunction:
  assumes "build_query e cve_id base_score last_modified_days = Inr q" and "\<not> find_fails e"
  shows "fst (fetch_filtered_cve_data e cve_id base_score last_modified_days s)
           = Inr (filter (\<lambda>d. match_id (q_id q) d \<and> match_baseScore (q_or_baseScore q) d
                              \<and> match_lastModified (q_lastModified q) d) (collection s))"
  using fetch_filtered_result[OF assms(1)] assms(2) by (simp add: matches_def[abs_def])

text \<open>
  C8 at the score 0. \<^verbatim>\<open>if base_score:\<close> is false for the number 0, so the query gets no
  score clause and every record is returned, the one with score 7.5 included; the
  string \<^verbatim>\<open>"0"\<close> is truthy and selects the record with score 0 only, as does every
  non-zero number (7.5 here).
\<close>

theorem fetch_filtered_zero_score:
  "fst (fetch_filtered_cve_data example_env None (PFloat 0) PNone
          (process_start [scored_75, scored_0]))
     = Inr [scored_75, scored_0]
   \<and> path_eq v2_path (JNum 0) scored_75 = False
   \<and> path_eq v3_path (JNum 0) scored_75 = False
   \<and> fst (fetch_filtered_cve_data example_env None (PStr ''0'') PNone
            (process_start [scored_75, scored_0]))
     = Inr [scored_0]
   \<and> fst (fetch_filtered_cve_data example_env None (PFloat 7.5) PNone
            (process_start [scored_75, scored_0]))
     = Inr [scored_75]"
  by (simp add: query_defs example_defs)

end
